theory Spec2Isabelle
  imports Main "HOL-Library.Multiset"
begin

section \<open>JavaScript values\<close>

text \<open>
  The client (\<^verbatim>\<open>client/src/App.jsx\<close>) works on whatever \<^verbatim>\<open>JSON.parse\<close> returns, so the
  model keeps JavaScript's dynamic values. \<open>JNum\<close> holds the integer-valued numbers
  (exact as doubles up to \<open>2^53\<close>; fractions, exponents and \<open>NaN\<close> are outside the
  model). A string is a list of code units below 256. An object is the list of its own
  properties, each key once, in enumeration order.
\<close>

datatype jsval =
    JUndefined
  | JNull
  | JBool bool
  | JNum int
  | JStr string
  | JArr "jsval list"
  | JObj "(string \<times> jsval) list"

text \<open>
  What can be thrown: \<^verbatim>\<open>new Error(msg)\<close> by the program itself, and the engine's own
  \<^verbatim>\<open>TypeError\<close> (reading a property of \<^verbatim>\<open>null\<close>, calling what is not a function,
  converting an object that has no usable \<^verbatim>\<open>toString\<close>). The text of an engine
  \<^verbatim>\<open>TypeError\<close> differs between engines, so \<open>e.message\<close> is kept symbolic for it.
\<close>

datatype exn = Error string | TypeError

datatype message = Message string | TypeErrorMessage

fun message_of :: "exn \<Rightarrow> message" where
  "message_of (Error m) = Message m"
| "message_of TypeError = TypeErrorMessage"

definition and_then :: "exn + 'a \<Rightarrow> ('a \<Rightarrow> exn + 'b) \<Rightarrow> exn + 'b" where
  "and_then r f = (case r of Inl e \<Rightarrow> Inl e | Inr x \<Rightarrow> f x)"

subsection \<open>Numbers as decimal text\<close>

definition digit_char :: "nat \<Rightarrow> char" where
  "digit_char d = ''0123456789'' ! d"

fun string_of_nat :: "nat \<Rightarrow> string" where
  "string_of_nat n =
     (if n < 10 then [digit_char n]
      else string_of_nat (n div 10) @ [digit_char (n mod 10)])"

definition string_of_int :: "int \<Rightarrow> string" where
  "string_of_int i =
     (if i < 0 then CHR ''-'' # string_of_nat (nat (- i)) else string_of_nat (nat i))"

subsection \<open>Property access, truthiness, conversion to string\<close>

text \<open>
  \<^verbatim>\<open>v.k\<close> for the property names the program reads (\<^verbatim>\<open>roll_calls\<close>, \<^verbatim>\<open>roll_call\<close>,
  \<^verbatim>\<open>vote_number\<close>, \<^verbatim>\<open>vote_date\<close>, \<^verbatim>\<open>issue\<close>, \<^verbatim>\<open>question\<close>, \<^verbatim>\<open>result\<close>, \<^verbatim>\<open>counts\<close>,
  \<^verbatim>\<open>Yea\<close>, \<^verbatim>\<open>Nay\<close>): none of them is an index, \<^verbatim>\<open>length\<close> or a property of a built-in
  prototype, so only an object can have them; on \<^verbatim>\<open>null\<close> and \<^verbatim>\<open>undefined\<close> the access
  throws.
\<close>

fun js_get :: "jsval \<Rightarrow> string \<Rightarrow> exn + jsval" where
  "js_get JUndefined k = Inl TypeError"
| "js_get JNull k = Inl TypeError"
| "js_get (JObj kvs) k = Inr (case map_of kvs k of None \<Rightarrow> JUndefined | Some x \<Rightarrow> x)"
| "js_get v k = Inr JUndefined"

fun truthy :: "jsval \<Rightarrow> bool" where
  "truthy JUndefined = False"
| "truthy JNull = False"
| "truthy (JBool b) = b"
| "truthy (JNum n) = (n \<noteq> 0)"
| "truthy (JStr s) = (s \<noteq> [])"
| "truthy (JArr xs) = True"
| "truthy (JObj kvs) = True"

text \<open>
  \<^verbatim>\<open>`${v}`\<close>: \<open>ToString\<close>. An array joins its elements with commas, \<^verbatim>\<open>null\<close> and
  \<^verbatim>\<open>undefined\<close> elements giving the empty string. A parsed object has no callable
  property of its own, so it prints through \<^verbatim>\<open>Object.prototype.toString\<close> unless an own
  \<^verbatim>\<open>toString\<close> key shadows it, and then the conversion throws.
\<close>

fun js_to_string :: "jsval \<Rightarrow> exn + string"
  and join_elements :: "jsval list \<Rightarrow> exn + string" where
  "js_to_string JUndefined = Inr ''undefined''"
| "js_to_string JNull = Inr ''null''"
| "js_to_string (JBool b) = Inr (if b then ''true'' else ''false'')"
| "js_to_string (JNum n) = Inr (string_of_int n)"
| "js_to_string (JStr s) = Inr s"
| "js_to_string (JArr xs) = join_elements xs"
| "js_to_string (JObj kvs) =
     (if map_of kvs ''toString'' = None then Inr ''[object Object]'' else Inl TypeError)"
| "join_elements [] = Inr []"
| "join_elements (x # xs) =
     (case (if x = JUndefined \<or> x = JNull then Inr [] else js_to_string x) of
        Inl e \<Rightarrow> Inl e
      | Inr s \<Rightarrow>
          (if xs = [] then Inr s
           else (case join_elements xs of Inl e \<Rightarrow> Inl e | Inr r \<Rightarrow> Inr (s @ '','' @ r))))"

text \<open>\<^verbatim>\<open>String.prototype.trim\<close>: white space and line terminators below code unit 256.\<close>

definition is_space :: "char \<Rightarrow> bool" where
  "is_space c = (c \<in> set [CHR 0x09, CHR 0x0A, CHR 0x0B, CHR 0x0C, CHR 0x0D, CHR 0x20, CHR 0xA0])"

definition trim :: "string \<Rightarrow> string" where
  "trim s = rev (dropWhile is_space (rev (dropWhile is_space s)))"

text \<open>\<^verbatim>\<open>v.trim()\<close>: only a string has the method.\<close>

fun js_trim :: "jsval \<Rightarrow> exn + string" where
  "js_trim (JStr s) = Inr (trim s)"
| "js_trim v = Inl TypeError"

section \<open>The year of a session\<close>

text \<open>\<^verbatim>\<open>const getYearForCongress = (congress, session) => 1789 + (congress - 1) * 2 + (session - 1);\<close>\<close>

definition getYearForCongress :: "int \<Rightarrow> int \<Rightarrow> int" where
  "getYearForCongress congress session = 1789 + (congress - 1) * 2 + (session - 1)"

text \<open>A session of a Congress is its first or its second.\<close>

definition valid_session :: "int \<Rightarrow> bool" where
  "valid_session s = (s = 1 \<or> s = 2)"

text \<open>The lexicographic order on (congress, session).\<close>

definition lex_le :: "int \<times> int \<Rightarrow> int \<times> int \<Rightarrow> bool" where
  "lex_le p q = (fst p < fst q \<or> (fst p = fst q \<and> snd p \<le> snd q))"

section \<open>XML documents\<close>

text \<open>
  The tree \<^verbatim>\<open>DOMParser.parseFromString(text, "text/xml")\<close> returns, as far as the program
  looks at it: elements by local name with their children in document order, and text
  (character data and CDATA). Attributes, comments and processing instructions take no
  part in a type selector or in \<^verbatim>\<open>textContent\<close>.
\<close>

datatype xml = Element string "xml list" | Text string

fun textContent :: "xml \<Rightarrow> string" where
  "textContent (Text s) = s"
| "textContent (Element n kids) = concat (map textContent kids)"

fun is_element :: "string \<Rightarrow> xml \<Rightarrow> bool" where
  "is_element n (Element m kids) = (m = n)"
| "is_element n (Text s) = False"

text \<open>The elements of a subtree, the root first, in document order.\<close>

fun subtree :: "xml \<Rightarrow> xml list" where
  "subtree (Text s) = []"
| "subtree (Element n kids) = Element n kids # concat (map subtree kids)"

fun descendants :: "xml \<Rightarrow> xml list" where
  "descendants (Text s) = []"
| "descendants (Element n kids) = concat (map subtree kids)"

text \<open>\<^verbatim>\<open>doc.querySelectorAll(name)\<close> and \<^verbatim>\<open>doc.querySelector(name)\<close> on the document: the root counts.\<close>

definition doc_querySelectorAll :: "xml \<Rightarrow> string \<Rightarrow> xml list" where
  "doc_querySelectorAll doc n = filter (is_element n) (subtree doc)"

definition doc_querySelector :: "xml \<Rightarrow> string \<Rightarrow> xml option" where
  "doc_querySelector doc n = find (is_element n) (subtree doc)"

text \<open>\<^verbatim>\<open>v.querySelector(name)\<close> on an element: its first descendant of that name.\<close>

definition querySelector :: "xml \<Rightarrow> string \<Rightarrow> xml option" where
  "querySelector v n = find (is_element n) (descendants v)"

text \<open>
  \<^verbatim>\<open>v.querySelector("p > c")\<close>: the first element named \<open>c\<close> below \<open>v\<close> whose parent is
  an element named \<open>p\<close>.
\<close>

fun child_matches :: "string \<Rightarrow> string \<Rightarrow> xml \<Rightarrow> xml list" where
  "child_matches p c (Text s) = []"
| "child_matches p c (Element n kids) =
     concat (map (\<lambda>k. (if n = p \<and> is_element c k then [k] else []) @ child_matches p c k) kids)"

definition querySelector_child :: "xml \<Rightarrow> string \<Rightarrow> string \<Rightarrow> xml option" where
  "querySelector_child v p c = (case child_matches p c v of [] \<Rightarrow> None | k # ks \<Rightarrow> Some k)"

text \<open>\<^verbatim>\<open>e?.textContent\<close>: \<^verbatim>\<open>undefined\<close> when the query found nothing.\<close>

fun opt_textContent :: "xml option \<Rightarrow> jsval" where
  "opt_textContent None = JUndefined"
| "opt_textContent (Some e) = JStr (textContent e)"

text \<open>The same value inside a template literal or a string concatenation.\<close>

fun opt_text :: "xml option \<Rightarrow> string" where
  "opt_text None = ''undefined''"
| "opt_text (Some e) = textContent e"

section \<open>The host: network, parsers, dates\<close>

text \<open>
  What \<^verbatim>\<open>fetch(url)\<close> does: it rejects (the text is what \<^verbatim>\<open>e?.message || e\<close> prints), or
  it resolves with a status and a body whose \<^verbatim>\<open>text()\<close> resolves or rejects.
\<close>

datatype body = BodyText string | BodyFailed string

datatype fetch_outcome = Rejected string | Responded nat body

text \<open>
  The browser the client runs in. \<open>sort_order\<close> is its engine's
  \<^verbatim>\<open>Array.prototype.sort\<close>: from the number of elements and the verdict of the comparison
  of the elements at any two positions, the positions in the order in which the sorted
  array holds them.
\<close>

record host =
  fetch :: "string \<Rightarrow> fetch_outcome"
  JSON_parse :: "string \<Rightarrow> jsval option"
  parseFromString :: "string \<Rightarrow> xml"
  Date_parse :: "string \<Rightarrow> int option"
  sort_order :: "nat \<Rightarrow> (nat \<Rightarrow> nat \<Rightarrow> int) \<Rightarrow> nat list"

text \<open>\<^verbatim>\<open>res.ok\<close>\<close>

definition ok :: "nat \<Rightarrow> bool" where
  "ok status = (200 \<le> status \<and> status \<le> 299)"

text \<open>\<^verbatim>\<open>label || "URL"\<close>\<close>

definition label_or_URL :: "string \<Rightarrow> string" where
  "label_or_URL label = (if label = [] then ''URL'' else label)"

text \<open>\<^verbatim>\<open>async function fetchJson(url, label = "")\<close>\<close>

definition fetchJson :: "host \<Rightarrow> string \<Rightarrow> string \<Rightarrow> exn + jsval" where
  "fetchJson h url label =
     (case fetch h url of
        Rejected m \<Rightarrow> Inl (Error (label_or_URL label @ '' failed (network): '' @ m))
      | Responded status b \<Rightarrow>
          (case b of
             BodyFailed m \<Rightarrow> Inl (Error m)
           | BodyText text \<Rightarrow>
               if \<not> ok status then
                 Inl (Error (trim (label_or_URL label @ '' failed (HTTP '' @ string_of_nat status
                                   @ ''). '' @ take 180 text)))
               else
                 (case JSON_parse h text of
                    Some d \<Rightarrow> Inr d
                  | None \<Rightarrow>
                      Inl (Error (label_or_URL label @ '' returned invalid JSON. Response text: ''
                                  @ take 180 text)))))"

text \<open>\<^verbatim>\<open>async function fetchXml(url, label = "")\<close>\<close>

definition fetchXml :: "host \<Rightarrow> string \<Rightarrow> string \<Rightarrow> exn + xml" where
  "fetchXml h url label =
     (case fetch h url of
        Rejected m \<Rightarrow> Inl (Error (label_or_URL label @ '' failed (network): '' @ m))
      | Responded status b \<Rightarrow>
          (case b of
             BodyFailed m \<Rightarrow> Inl (Error m)
           | BodyText text \<Rightarrow>
               if \<not> ok status then
                 Inl (Error (trim (label_or_URL label @ '' failed (HTTP '' @ string_of_nat status
                                   @ ''). '' @ take 180 text)))
               else
                 (let doc = parseFromString h text in
                  case doc_querySelector doc ''parsererror'' of
                    Some err \<Rightarrow> Inl (Error (label_or_URL label @ '' XML parse error: '' @ textContent err))
                  | None \<Rightarrow> Inr doc)))"

section \<open>Votes and settings\<close>

datatype chamber = Senate | House

text \<open>
  The object both branches build. \<open>number\<close> and \<open>date\<close> keep the value the feed gave
  (\<^verbatim>\<open>v.vote_number\<close>, \<^verbatim>\<open>v.vote_date\<close>, a \<^verbatim>\<open>textContent\<close>); the other fields come out of
  template literals and are strings.
\<close>

record vote =
  chamber :: chamber
  number :: jsval
  date :: jsval
  title :: string
  result :: string
  key :: string

text \<open>The settings; \<open>congress\<close> and \<open>session\<close> are the integers \<^verbatim>\<open>parseInt\<close> gave.\<close>

record settings =
  congress :: int
  session :: int
  includeHouse :: bool
  includeSenate :: bool

text \<open>\<^verbatim>\<open>const HOUSE_ROLLS_INDEX = (year) => `/api/house/${year}`;\<close>\<close>

definition HOUSE_ROLLS_INDEX :: "int \<Rightarrow> string" where
  "HOUSE_ROLLS_INDEX year = ''/api/house/'' @ string_of_int year"

text \<open>\<^verbatim>\<open>const senateMenuUrl = (congress, session) => `/api/senate/${congress}/${session}`;\<close>\<close>

definition senateMenuUrl :: "int \<Rightarrow> int \<Rightarrow> string" where
  "senateMenuUrl c s = ''/api/senate/'' @ string_of_int c @ ''/'' @ string_of_int s"

section \<open>The Senate branch\<close>

text \<open>The arrow function given to \<^verbatim>\<open>roll_call.map\<close>, in its order of evaluation.\<close>

definition senate_vote :: "settings \<Rightarrow> jsval \<Rightarrow> exn + vote" where
  "senate_vote s v =
     and_then (js_get v ''vote_number'') (\<lambda>num.
     and_then (js_get v ''vote_date'') (\<lambda>d.
     and_then (and_then (js_get v ''issue'') js_trim) (\<lambda>i.
     and_then (and_then (js_get v ''question'') js_trim) (\<lambda>q.
     and_then (and_then (js_get v ''result'') js_to_string) (\<lambda>r.
     and_then (and_then (and_then (js_get v ''counts'') (\<lambda>c. js_get c ''Yea'')) js_to_string) (\<lambda>y.
     and_then (and_then (and_then (js_get v ''counts'') (\<lambda>c. js_get c ''Nay'')) js_to_string) (\<lambda>n.
     and_then (and_then (js_get v ''vote_number'') js_to_string) (\<lambda>k.
       Inr \<lparr>chamber = Senate, number = num, date = d,
            title = i @ '': '' @ q,
            result = r @ '' ('' @ y @ ''-'' @ n @ '')'',
            key = ''s-'' @ string_of_int (congress s) @ ''-'' @ string_of_int (session s)
                  @ ''-'' @ k\<rparr>))))))))"

text \<open>\<^verbatim>\<open>xs.map(f)\<close> with an \<open>f\<close> that may throw.\<close>

fun map_throwing :: "('a \<Rightarrow> exn + 'b) \<Rightarrow> 'a list \<Rightarrow> exn + 'b list" where
  "map_throwing f [] = Inr []"
| "map_throwing f (x # xs) =
     and_then (f x) (\<lambda>y. and_then (map_throwing f xs) (\<lambda>ys. Inr (y # ys)))"

text \<open>What the run does besides computing: network calls and console output.\<close>

datatype event = NetCall string | ConsoleWarn | ConsoleError exn

text \<open>
  From the parsed body to the Senate votes: the test
  \<^verbatim>\<open>data.roll_calls && data.roll_calls.roll_call\<close>, then \<^verbatim>\<open>.map\<close> (which only an array
  has), else the warning.
\<close>

definition senate_map :: "settings \<Rightarrow> jsval \<Rightarrow> (exn + vote list) \<times> event list" where
  "senate_map s data =
     (case js_get data ''roll_calls'' of
        Inl e \<Rightarrow> (Inl e, [])
      | Inr rc \<Rightarrow>
          if \<not> truthy rc then (Inr [], [ConsoleWarn])
          else
            (case js_get rc ''roll_call'' of
               Inl e \<Rightarrow> (Inl e, [])
             | Inr rcl \<Rightarrow>
                 if \<not> truthy rcl then (Inr [], [ConsoleWarn])
                 else
                   (case rcl of
                      JArr vs \<Rightarrow> (map_throwing (senate_vote s) vs, [])
                    | _ \<Rightarrow> (Inl TypeError, []))))"

text \<open>The block \<^verbatim>\<open>if (settings.includeSenate) { ... }\<close>: the votes it pushes, or what it throws.\<close>

definition senate_branch :: "host \<Rightarrow> settings \<Rightarrow> (exn + vote list) \<times> event list" where
  "senate_branch h s =
     (if includeSenate s then
        (let url = senateMenuUrl (congress s) (session s) in
         case fetchJson h url ''Senate Votes'' of
           Inl e \<Rightarrow> (Inl e, [NetCall url])
         | Inr data \<Rightarrow> (fst (senate_map s data), NetCall url # snd (senate_map s data)))
      else (Inr [], []))"

section \<open>The House branch\<close>

text \<open>\<^verbatim>\<open>e?.textContent || d\<close>\<close>

fun text_or :: "xml option \<Rightarrow> string \<Rightarrow> string" where
  "text_or None d = d"
| "text_or (Some e) d = (if textContent e = [] then d else textContent e)"

text \<open>The arrow function given to \<^verbatim>\<open>Array.from(doc.querySelectorAll("rollcall-vote")).map\<close>.\<close>

definition house_vote :: "int \<Rightarrow> xml \<Rightarrow> vote" where
  "house_vote year v =
     \<lparr>chamber = House,
      number = opt_textContent (querySelector v ''rollcall-num''),
      date = JStr (opt_text (querySelector v ''action-date'') @ ''T''
                   @ opt_text (querySelector v ''action-time'')),
      title = text_or (querySelector v ''vote-question'') ''N/A'',
      result = opt_text (querySelector v ''vote-result'') @ '' (''
               @ opt_text (querySelector_child v ''totals-by-vote'' ''yea-total'') @ ''-''
               @ opt_text (querySelector_child v ''totals-by-vote'' ''nay-total'') @ '')'',
      key = ''h-'' @ string_of_int year @ ''-'' @ opt_text (querySelector v ''rollcall-num'')\<rparr>"

text \<open>The block \<^verbatim>\<open>if (settings.includeHouse) { ... }\<close>.\<close>

definition house_branch :: "host \<Rightarrow> settings \<Rightarrow> (exn + vote list) \<times> event list" where
  "house_branch h s =
     (if includeHouse s then
        (let year = getYearForCongress (congress s) (session s);
             url = HOUSE_ROLLS_INDEX year in
         case fetchXml h url ''House Votes'' of
           Inl e \<Rightarrow> (Inl e, [NetCall url])
         | Inr doc \<Rightarrow>
             (Inr (map (house_vote year) (doc_querySelectorAll doc ''rollcall-vote'')),
              [NetCall url]))
      else (Inr [], []))"

section \<open>Sorting by date\<close>

text \<open>
  The time value of \<^verbatim>\<open>new Date(v)\<close>, \<open>None\<close> for \<open>NaN\<close> (an invalid date). A string goes
  to the host's \<^verbatim>\<open>Date.parse\<close>; an array or object is first converted to a string, which
  may throw; anything else goes through \<open>ToNumber\<close> and \<open>TimeClip\<close>.
\<close>

fun new_Date :: "host \<Rightarrow> jsval \<Rightarrow> exn + int option" where
  "new_Date h JUndefined = Inr None"
| "new_Date h JNull = Inr (Some 0)"
| "new_Date h (JBool b) = Inr (Some (if b then 1 else 0))"
| "new_Date h (JNum n) = Inr (if \<bar>n\<bar> \<le> 8640000000000000 then Some n else None)"
| "new_Date h (JStr s) = Inr (Date_parse h s)"
| "new_Date h v = and_then (js_to_string v) (\<lambda>s. Inr (Date_parse h s))"

text \<open>\<^verbatim>\<open>(a, b) => new Date(b.date) - new Date(a.date)\<close>; \<open>None\<close> is \<open>NaN\<close>.\<close>

definition by_date :: "host \<Rightarrow> vote \<Rightarrow> vote \<Rightarrow> exn + int option" where
  "by_date h a b =
     and_then (new_Date h (date b)) (\<lambda>tb.
     and_then (new_Date h (date a)) (\<lambda>ta.
       Inr (case tb of None \<Rightarrow> None
            | Some x \<Rightarrow> (case ta of None \<Rightarrow> None | Some y \<Rightarrow> Some (x - y)))))"

text \<open>\<open>SortCompare\<close> of \<^verbatim>\<open>Array.prototype.sort\<close>: a comparator's \<open>NaN\<close> counts as \<open>+0\<close>.\<close>

definition SortCompare :: "('a \<Rightarrow> 'a \<Rightarrow> exn + int option) \<Rightarrow> 'a \<Rightarrow> 'a \<Rightarrow> exn + int" where
  "SortCompare comparefn x y =
     and_then (comparefn x y) (\<lambda>v. Inr (case v of None \<Rightarrow> 0 | Some c \<Rightarrow> c))"

text \<open>The first exception among the outcomes of a sequence of calls, if any.\<close>

fun thrown :: "(exn + 'a) list \<Rightarrow> exn option" where
  "thrown [] = None"
| "thrown (Inl e # rs) = Some e"
| "thrown (Inr v # rs) = thrown rs"

text \<open>The pairs of elements at two different positions.\<close>

definition pairs :: "'a list \<Rightarrow> ('a \<times> 'a) list" where
  "pairs xs =
     concat (map (\<lambda>i. map (\<lambda>j. (xs ! i, xs ! j)) (filter (\<lambda>j. j \<noteq> i) [0..<length xs]))
                 [0..<length xs])"

text \<open>What the engine sees of the array: the verdict on the elements at two positions.\<close>

definition verdict :: "host \<Rightarrow> vote list \<Rightarrow> nat \<Rightarrow> nat \<Rightarrow> int" where
  "verdict h xs i j =
     (case SortCompare (by_date h) (xs ! i) (xs ! j) of Inl e \<Rightarrow> 0 | Inr c \<Rightarrow> c)"

text \<open>The place of position \<open>i\<close> in an order of positions.\<close>

definition place :: "nat list \<Rightarrow> nat \<Rightarrow> nat" where
  "place order i = length (takeWhile (\<lambda>k. k \<noteq> i) order)"

text \<open>
  The array with its elements moved to the places an order of its positions gives them.
  Whatever the order, the result holds the elements of the array, each as often as
  before.
\<close>

definition rearrange :: "nat list \<Rightarrow> 'a list \<Rightarrow> 'a list" where
  "rearrange order xs =
     map snd (sort_key fst (zip (map (place order) [0..<length xs]) xs))"

text \<open>
  \<^verbatim>\<open>fetchedVotes.sort((a, b) => new Date(b.date) - new Date(a.date))\<close>. ECMAScript fixes
  the order of the result only for a consistent comparator; with \<open>NaN\<close> verdicts this one
  is not, and the order is the engine's, which the host gives. With two elements or more
  an engine compares every element with another one, and this comparator throws as soon
  as the date of one of its arguments cannot be converted, whichever the other is: the
  sort throws exactly when the comparison of some pair does, a \<^verbatim>\<open>TypeError\<close> each time.
\<close>

definition sort_by_date :: "host \<Rightarrow> vote list \<Rightarrow> exn + vote list" where
  "sort_by_date h xs =
     (case thrown (map (\<lambda>(a, b). SortCompare (by_date h) a b) (pairs xs)) of
        Some e \<Rightarrow> Inl e
      | None \<Rightarrow> Inr (rearrange (sort_order h (length xs) (verdict h xs)) xs))"

section \<open>fetchVotes\<close>

text \<open>The component's state: \<^verbatim>\<open>votes\<close>, \<^verbatim>\<open>loading\<close>, \<^verbatim>\<open>error\<close> (\<open>None\<close> is \<^verbatim>\<open>null\<close>).\<close>

record app =
  votes :: "vote list"
  loading :: bool
  error :: "message option"

text \<open>The body of the \<^verbatim>\<open>try\<close>: Senate if selected, then House if selected, then the sort.\<close>

definition gather :: "host \<Rightarrow> settings \<Rightarrow> (exn + vote list) \<times> event list" where
  "gather h s =
     (case fst (senate_branch h s) of
        Inl e \<Rightarrow> (Inl e, snd (senate_branch h s))
      | Inr senateVotes \<Rightarrow>
          (case fst (house_branch h s) of
             Inl e \<Rightarrow> (Inl e, snd (senate_branch h s) @ snd (house_branch h s))
           | Inr houseVotes \<Rightarrow>
               (sort_by_date h (senateVotes @ houseVotes),
                snd (senate_branch h s) @ snd (house_branch h s))))"

text \<open>
  \<^verbatim>\<open>fetchVotes\<close>: the state after the call and what the call did. The validation branch
  returns before \<^verbatim>\<open>loading\<close> is touched; otherwise \<^verbatim>\<open>finally\<close> clears it.
\<close>

definition fetchVotes :: "host \<Rightarrow> settings \<Rightarrow> app \<Rightarrow> app \<times> event list" where
  "fetchVotes h s st =
     (if \<not> includeHouse s \<and> \<not> includeSenate s then
        (st\<lparr>error := Some (Message
               ''Please select at least one chamber (House or Senate) to fetch votes.''),
            votes := []\<rparr>, [])
      else
        (case fst (gather h s) of
           Inr fetchedVotes \<Rightarrow>
             (st\<lparr>loading := False, error := None, votes := fetchedVotes\<rparr>, snd (gather h s))
         | Inl e \<Rightarrow>
             (st\<lparr>loading := False, error := Some (message_of e), votes := []\<rparr>,
              snd (gather h s) @ [ConsoleError e])))"

section \<open>The relay\<close>

text \<open>
  \<^verbatim>\<open>server.js\<close>. How the promise of \<^verbatim>\<open>axios.get(url)\<close> settles. It resolves with the
  final response, redirects having been followed, when its status is from 200 to 299;
  the text is the body as axios decoded it. It rejects with \<^verbatim>\<open>error.response\<close> when the
  final response has another status (a three-digit one, 300 or more), and without it
  when there was no response.
\<close>

datatype axios_outcome = Resolved nat string | RejectedWith nat | RejectedWithout

text \<open>
  The process the relay runs in. \<open>fresh\<close> is \<^verbatim>\<open>req.fresh\<close> as Express computes it when
  it sends a body in answer to a GET request: from the request's headers
  (\<^verbatim>\<open>If-None-Match\<close>, \<^verbatim>\<open>If-Modified-Since\<close>, \<^verbatim>\<open>Cache-Control\<close>) and the entity tag it
  derives from the body.
\<close>

record node =
  axios_get :: "string \<Rightarrow> axios_outcome"
  parse_json :: "string \<Rightarrow> jsval option"
  stringify_json :: "jsval \<Rightarrow> string"
  fresh :: "(string \<times> string) list \<Rightarrow> string \<Rightarrow> bool"

text \<open>
  \<^verbatim>\<open>response.data\<close> of a request with no \<^verbatim>\<open>responseType\<close>: the parsed body, or the body
  itself when it is not JSON.
\<close>

definition response_data :: "node \<Rightarrow> string \<Rightarrow> jsval" where
  "response_data nd text = (case parse_json nd text of Some d \<Rightarrow> d | None \<Rightarrow> JStr text)"

text \<open>
  The response to a GET request: status, media type of the \<^verbatim>\<open>Content-Type\<close> header if
  there is one, body.
\<close>

record response =
  status :: nat
  content_type :: "string option"
  body :: string

text \<open>
  \<^verbatim>\<open>res.send(chunk)\<close> of Express with the status and \<^verbatim>\<open>Content-Type\<close> set before, for a
  GET request with the given headers. A fresh request whose status is from 200 to 299 or
  304 gets 304; a 204 or 304 goes out without \<^verbatim>\<open>Content-Type\<close> and without body. The
  handlers reach it with 200 or with a status outside 200 to 299.
\<close>

definition send_status :: "node \<Rightarrow> (string \<times> string) list \<Rightarrow> nat \<Rightarrow> string \<Rightarrow> nat" where
  "send_status nd headers st chunk =
     (if ((200 \<le> st \<and> st < 300) \<or> st = 304) \<and> fresh nd headers chunk then 304 else st)"

definition send :: "node \<Rightarrow> (string \<times> string) list \<Rightarrow> nat \<Rightarrow> string \<Rightarrow> string \<Rightarrow> response" where
  "send nd headers st type chunk =
     (if send_status nd headers st chunk = 204 \<or> send_status nd headers st chunk = 304
      then \<lparr>status = send_status nd headers st chunk, content_type = None, body = []\<rparr>
      else \<lparr>status = send_status nd headers st chunk, content_type = Some type, body = chunk\<rparr>)"

text \<open>\<^verbatim>\<open>error.response?.status || 500\<close>\<close>

fun status_or_500 :: "axios_outcome \<Rightarrow> nat" where
  "status_or_500 (RejectedWith st) = (if st = 0 then 500 else st)"
| "status_or_500 outcome = 500"

definition senate_upstream_url :: "string \<Rightarrow> string \<Rightarrow> string" where
  "senate_upstream_url congress' session' =
     ''https://www.senate.gov/legislative/LIS/roll_call_lists/vote_menu_''
     @ congress' @ ''_'' @ session' @ ''.json''"

definition house_upstream_url :: "string \<Rightarrow> string" where
  "house_upstream_url year = ''https://clerk.house.gov/evs/'' @ year @ ''/ROLLS.xml''"

text \<open>
  \<^verbatim>\<open>app.get('/api/senate/:congress/:session', ...)\<close>: \<^verbatim>\<open>res.json(response.data)\<close>, or in the
  \<^verbatim>\<open>catch\<close> the status and the message.
\<close>

definition senate_route :: "node \<Rightarrow> (string \<times> string) list \<Rightarrow> string \<Rightarrow> string \<Rightarrow> response" where
  "senate_route nd headers congress' session' =
     (case axios_get nd (senate_upstream_url congress' session') of
        Resolved st text \<Rightarrow>
          send nd headers 200 ''application/json'' (stringify_json nd (response_data nd text))
      | outcome \<Rightarrow>
          send nd headers (status_or_500 outcome) ''text/html''
            ''Error fetching data from Senate API'')"

text \<open>\<^verbatim>\<open>app.get('/api/house/:year', ...)\<close>, with \<^verbatim>\<open>responseType: 'text'\<close>.\<close>

definition house_route :: "node \<Rightarrow> (string \<times> string) list \<Rightarrow> string \<Rightarrow> response" where
  "house_route nd headers year =
     (case axios_get nd (house_upstream_url year) of
        Resolved st text \<Rightarrow> send nd headers 200 ''application/xml'' text
      | outcome \<Rightarrow>
          send nd headers (status_or_500 outcome) ''text/html''
            ''Error fetching data from House API'')"

section \<open>Notions the properties are stated with\<close>

text \<open>A request that fails in transport: no response, a body that cannot be read, or a status outside 200..299.\<close>

definition transport_failure :: "host \<Rightarrow> string \<Rightarrow> bool" where
  "transport_failure h url =
     (case fetch h url of
        Rejected m \<Rightarrow> True
      | Responded st b \<Rightarrow> (case b of BodyFailed m \<Rightarrow> True | BodyText t \<Rightarrow> st < 200 \<or> 299 < st))"

definition invalid_json :: "host \<Rightarrow> string \<Rightarrow> bool" where
  "invalid_json h url =
     (case fetch h url of
        Rejected m \<Rightarrow> False
      | Responded st b \<Rightarrow> (case b of BodyFailed m \<Rightarrow> False | BodyText t \<Rightarrow> JSON_parse h t = None))"

definition malformed_xml :: "host \<Rightarrow> string \<Rightarrow> bool" where
  "malformed_xml h url =
     (case fetch h url of
        Rejected m \<Rightarrow> False
      | Responded st b \<Rightarrow>
          (case b of
             BodyFailed m \<Rightarrow> False
           | BodyText t \<Rightarrow> list_ex (is_element ''parsererror'') (subtree (parseFromString h t))))"

text \<open>The Senate branch is selected and its fetch fails; the same for the House.\<close>

definition senate_failure :: "host \<Rightarrow> settings \<Rightarrow> bool" where
  "senate_failure h s =
     (includeSenate s \<and>
      (transport_failure h (senateMenuUrl (congress s) (session s))
       \<or> invalid_json h (senateMenuUrl (congress s) (session s))))"

definition house_failure :: "host \<Rightarrow> settings \<Rightarrow> bool" where
  "house_failure h s =
     (includeHouse s \<and>
      (transport_failure h (HOUSE_ROLLS_INDEX (getYearForCongress (congress s) (session s)))
       \<or> malformed_xml h (HOUSE_ROLLS_INDEX (getYearForCongress (congress s) (session s)))))"

fun is_console_error :: "event \<Rightarrow> bool" where
  "is_console_error (ConsoleError e) = True"
| "is_console_error ev = False"

fun is_net_call :: "event \<Rightarrow> bool" where
  "is_net_call (NetCall url) = True"
| "is_net_call ev = False"

text \<open>The member \<open>k\<close> of a parsed value, when it is an object that has one.\<close>

fun own_member :: "jsval \<Rightarrow> string \<Rightarrow> jsval option" where
  "own_member (JObj kvs) k = map_of kvs k"
| "own_member v k = None"

text \<open>\<^verbatim>\<open>roll_calls.roll_call\<close> is absent, or \<^verbatim>\<open>roll_calls\<close> or \<^verbatim>\<open>roll_call\<close> is a falsy value.\<close>

definition roll_call_missing :: "jsval \<Rightarrow> bool" where
  "roll_call_missing data =
     (case own_member data ''roll_calls'' of
        None \<Rightarrow> True
      | Some rc \<Rightarrow>
          \<not> truthy rc \<or>
          (case own_member rc ''roll_call'' of None \<Rightarrow> True | Some rcl \<Rightarrow> \<not> truthy rcl))"

text \<open>The text of the first descendant of \<open>v\<close> named \<open>n\<close>, if there is one.\<close>

definition text_of :: "xml \<Rightarrow> string \<Rightarrow> string option" where
  "text_of v n = map_option textContent (querySelector v n)"

definition child_text_of :: "xml \<Rightarrow> string \<Rightarrow> string \<Rightarrow> string option" where
  "child_text_of v p c = map_option textContent (querySelector_child v p c)"

text \<open>An absent text inside a string is the word \<^verbatim>\<open>undefined\<close>.\<close>

fun shown :: "string option \<Rightarrow> string" where
  "shown None = ''undefined''"
| "shown (Some t) = t"

text \<open>The time value a vote is sorted by; \<open>None\<close> when its date is invalid or cannot be converted.\<close>

definition time_value :: "host \<Rightarrow> vote \<Rightarrow> int option" where
  "time_value h v = (case new_Date h (date v) of Inl e \<Rightarrow> None | Inr t \<Rightarrow> t)"

fun is_integer :: "jsval \<Rightarrow> bool" where
  "is_integer (JNum n) = True"
| "is_integer v = False"

text \<open>The constant part of a key: chamber letter, then congress and session, or the year.\<close>

fun key_prefix :: "settings \<Rightarrow> chamber \<Rightarrow> string" where
  "key_prefix s Senate =
     ''s-'' @ string_of_int (congress s) @ ''-'' @ string_of_int (session s) @ ''-''"
| "key_prefix s House =
     ''h-'' @ string_of_int (getYearForCongress (congress s) (session s)) @ ''-''"

section \<open>Scenarios\<close>

text \<open>
  The sort of the V8 engine on an array of fewer than 64 elements, on positions \<open>a\<close>
  with the verdicts \<open>c\<close>. First the run at the start is counted: the longest stretch in
  which no element compares less than the one before it, or, when the second element
  compares less than the first, the longest stretch in which every element compares less
  than the one before it, and that stretch is reversed.
\<close>

fun run_more :: "(nat \<Rightarrow> nat \<Rightarrow> int) \<Rightarrow> bool \<Rightarrow> nat \<Rightarrow> nat list \<Rightarrow> nat" where
  "run_more c descending previous [] = 0"
| "run_more c descending previous (current # rest) =
     (if (if descending then 0 \<le> c current previous else c current previous < 0) then 0
      else Suc (run_more c descending current rest))"

fun count_and_make_run :: "(nat \<Rightarrow> nat \<Rightarrow> int) \<Rightarrow> nat list \<Rightarrow> nat list \<times> nat list" where
  "count_and_make_run c [] = ([], [])"
| "count_and_make_run c [x] = ([x], [])"
| "count_and_make_run c (x # y # rest) =
     (if c y x < 0
      then (rev (take (2 + run_more c True y rest) (x # y # rest)),
            drop (2 + run_more c True y rest) (x # y # rest))
      else (take (2 + run_more c False y rest) (x # y # rest),
            drop (2 + run_more c False y rest) (x # y # rest)))"

text \<open>
  Then each further element is inserted into the sorted part before it, at the place a
  binary search finds: after the elements it does not compare less than.
\<close>

function insertion_point :: "(nat \<Rightarrow> nat \<Rightarrow> int) \<Rightarrow> nat \<Rightarrow> nat list \<Rightarrow> nat \<Rightarrow> nat \<Rightarrow> nat" where
  "insertion_point c pivot a left right =
     (if left < right then
        (if c pivot (a ! (left + (right - left) div 2)) < 0
         then insertion_point c pivot a left (left + (right - left) div 2)
         else insertion_point c pivot a (left + (right - left) div 2 + 1) right)
      else left)"
  by pat_completeness auto
termination
proof (relation "measure (\<lambda>(c, pivot, a, left, right). right - left)")
  show "wf (measure (\<lambda>(c, pivot, a, left, right). right - left))" by simp
next
  fix c :: "nat \<Rightarrow> nat \<Rightarrow> int" and pivot a and left right :: nat
  assume "left < right"
  then have "left + (right - left) div 2 - left < right - left" by simp
  then show "((c, pivot, a, left, left + (right - left) div 2), c, pivot, a, left, right)
       \<in> measure (\<lambda>(c, pivot, a, left, right). right - left)" by simp
next
  fix c :: "nat \<Rightarrow> nat \<Rightarrow> int" and pivot a and left right :: nat
  assume "left < right"
  then have "right - (left + (right - left) div 2 + 1) < right - left" by arith
  then show "((c, pivot, a, left + (right - left) div 2 + 1, right), c, pivot, a, left, right)
       \<in> measure (\<lambda>(c, pivot, a, left, right). right - left)" by simp
qed

declare insertion_point.simps [simp del]

fun binary_insertion :: "(nat \<Rightarrow> nat \<Rightarrow> int) \<Rightarrow> nat list \<Rightarrow> nat list \<Rightarrow> nat list" where
  "binary_insertion c a [] = a"
| "binary_insertion c a (pivot # rest) =
     binary_insertion c
       (take (insertion_point c pivot a 0 (length a)) a @ pivot
          # drop (insertion_point c pivot a 0 (length a)) a)
       rest"

definition v8_short :: "nat \<Rightarrow> (nat \<Rightarrow> nat \<Rightarrow> int) \<Rightarrow> nat list" where
  "v8_short n c =
     (if n < 2 then [0..<n]
      else binary_insertion c (fst (count_and_make_run c [0..<n]))
                              (snd (count_and_make_run c [0..<n])))"

text \<open>
  A host given by tables: the response to each URL (any other request is rejected), the
  value \<^verbatim>\<open>JSON.parse\<close> gives for each body (any other body is a syntax error), the tree
  the XML parser gives (any other body is a parser error document) and the time value of
  each date string (any other string is an invalid date). Its engine sorts as V8 does.
\<close>

definition table_host ::
  "(string \<times> fetch_outcome) list \<Rightarrow> (string \<times> jsval) list \<Rightarrow> (string \<times> xml) list
   \<Rightarrow> (string \<times> int) list \<Rightarrow> host" where
  "table_host responses jsons xmls dates =
     \<lparr>fetch = (\<lambda>url. case map_of responses url of Some r \<Rightarrow> r | None \<Rightarrow> Rejected ''Failed to fetch''),
      JSON_parse = map_of jsons,
      parseFromString = (\<lambda>text. case map_of xmls text of
                           Some d \<Rightarrow> d
                         | None \<Rightarrow> Element ''parsererror'' [Text ''not well-formed'']),
      Date_parse = map_of dates,
      sort_order = v8_short\<rparr>"

text \<open>Congress 118, session 2, both chambers: the defaults of \<^verbatim>\<open>loadSettings\<close>.\<close>

definition defaults :: settings where
  "defaults = \<lparr>congress = 118, session = 2, includeHouse = True, includeSenate = True\<rparr>"

definition no_chamber :: settings where
  "no_chamber = \<lparr>congress = 118, session = 2, includeHouse = False, includeSenate = False\<rparr>"

definition senate_only :: settings where
  "senate_only = \<lparr>congress = 118, session = 2, includeHouse = False, includeSenate = True\<rparr>"

definition initial :: app where
  "initial = \<lparr>votes = [], loading = False, error = None\<rparr>"

text \<open>The Senate roll call of the specification's scenario 2.\<close>

definition hr1_record :: jsval where
  "hr1_record =
     JObj [(''vote_number'', JNum 5), (''vote_date'', JStr ''2024-03-01''),
           (''issue'', JStr '' HR1 ''), (''question'', JStr '' On Passage ''),
           (''result'', JStr ''Agreed to''),
           (''counts'', JObj [(''Yea'', JNum 60), (''Nay'', JNum 40)])]"

definition hr1_menu :: jsval where
  "hr1_menu = JObj [(''roll_calls'', JObj [(''roll_call'', JArr [hr1_record])])]"

definition hr1_vote :: vote where
  "hr1_vote =
     \<lparr>chamber = Senate, number = JNum 5, date = JStr ''2024-03-01'',
      title = ''HR1: On Passage'', result = ''Agreed to (60-40)'', key = ''s-118-2-5''\<rparr>"

text \<open>The House roll call of scenario 3, inside a document element.\<close>

definition roll10 :: xml where
  "roll10 =
     Element ''rollcall-vote''
       [Element ''action-date'' [Text ''2024-03-02''],
        Element ''action-time'' [Text ''14:00''],
        Element ''rollcall-num'' [Text ''10''],
        Element ''vote-question'' [Text ''On Agreeing''],
        Element ''vote-result'' [Text ''Passed''],
        Element ''totals-by-vote''
          [Element ''yea-total'' [Text ''200''], Element ''nay-total'' [Text ''150'']]]"

definition rolls_doc :: xml where
  "rolls_doc = Element ''rollcall-votes'' [roll10]"

definition roll10_vote :: vote where
  "roll10_vote =
     \<lparr>chamber = House, number = JStr ''10'', date = JStr ''2024-03-02T14:00'',
      title = ''On Agreeing'', result = ''Passed (200-150)'', key = ''h-2024-10''\<rparr>"

text \<open>
  The time values of the two dates: midnight UTC of 1 March 2024, and 14:00 of 2 March
  read as UTC (any time zone gives a later instant than the first).
\<close>

definition scenario_dates :: "(string \<times> int) list" where
  "scenario_dates = [(''2024-03-01'', 1709251200000), (''2024-03-02T14:00'', 1709388000000)]"

text \<open>Both feeds answer 200 with the scenario bodies.\<close>

definition both_ok :: host where
  "both_ok =
     table_host
       [(''/api/senate/118/2'', Responded 200 (BodyText ''SENATE-MENU'')),
        (''/api/house/2024'', Responded 200 (BodyText ''HOUSE-ROLLS''))]
       [(''SENATE-MENU'', hr1_menu)]
       [(''HOUSE-ROLLS'', rolls_doc)]
       scenario_dates"

text \<open>Scenario 6: the Senate answers as before, the House answers 404.\<close>

definition house_404 :: host where
  "house_404 =
     table_host
       [(''/api/senate/118/2'', Responded 200 (BodyText ''SENATE-MENU'')),
        (''/api/house/2024'', Responded 404 (BodyText ''Error fetching data from House API''))]
       [(''SENATE-MENU'', hr1_menu)]
       []
       scenario_dates"

text \<open>No request gets through.\<close>

definition offline :: host where
  "offline = table_host [] [] [] []"

text \<open>Scenario 7: the Senate body is \<^verbatim>\<open>{}\<close>, the House answers as before.\<close>

definition senate_empty_object :: host where
  "senate_empty_object =
     table_host
       [(''/api/senate/118/2'', Responded 200 (BodyText ''{}'')),
        (''/api/house/2024'', Responded 200 (BodyText ''HOUSE-ROLLS''))]
       [(''{}'', JObj [])]
       [(''HOUSE-ROLLS'', rolls_doc)]
       scenario_dates"

text \<open>A well-formed Senate record with the given number and date.\<close>

definition record_of :: "int \<Rightarrow> string \<Rightarrow> jsval" where
  "record_of n d =
     JObj [(''vote_number'', JNum n), (''vote_date'', JStr d),
           (''issue'', JStr ''HR1''), (''question'', JStr ''On Passage''),
           (''result'', JStr ''Agreed to''),
           (''counts'', JObj [(''Yea'', JNum 60), (''Nay'', JNum 40)])]"

definition menu_of :: "jsval \<Rightarrow> jsval" where
  "menu_of rcl = JObj [(''roll_calls'', JObj [(''roll_call'', rcl)])]"

text \<open>A host whose Senate body parses to the given value; the House answers as in scenario 3.\<close>

definition senate_gives :: "jsval \<Rightarrow> host" where
  "senate_gives data =
     table_host
       [(''/api/senate/118/2'', Responded 200 (BodyText ''SENATE-MENU'')),
        (''/api/house/2024'', Responded 200 (BodyText ''HOUSE-ROLLS''))]
       [(''SENATE-MENU'', data)]
       [(''HOUSE-ROLLS'', rolls_doc)]
       ((''2024-03-02'', 1709337600000) # (''2024-03-03'', 1709424000000) # scenario_dates)"

text \<open>The feed holds a single roll call as an object, not as an array of one.\<close>

definition single_roll_call :: host where
  "single_roll_call = senate_gives (menu_of hr1_record)"

text \<open>Three roll calls, the second with a date that does not parse.\<close>

definition undated_between :: host where
  "undated_between =
     senate_gives (menu_of (JArr [record_of 1 ''2024-03-01'', record_of 2 ''TBD'',
                                  record_of 3 ''2024-03-02'']))"

text \<open>Four roll calls, the third with a date that does not parse.\<close>

definition undated_third :: host where
  "undated_third =
     senate_gives (menu_of (JArr [record_of 1 ''2024-03-01'', record_of 2 ''2024-03-02'',
                                  record_of 3 ''TBD'', record_of 4 ''2024-03-03'']))"

text \<open>The vote the Senate mapping makes of \<open>record_of n d\<close> under the default settings.\<close>

definition dated_vote :: "int \<Rightarrow> string \<Rightarrow> vote" where
  "dated_vote n d =
     \<lparr>chamber = Senate, number = JNum n, date = JStr d,
      title = ''HR1: On Passage'', result = ''Agreed to (60-40)'',
      key = ''s-118-2-'' @ string_of_int n\<rparr>"

text \<open>Two roll calls with the same number.\<close>

definition repeated_number :: host where
  "repeated_number =
     senate_gives (menu_of (JArr [record_of 5 ''2024-03-01'', record_of 5 ''2024-03-02'']))"

text \<open>A House roll call whose \<^verbatim>\<open>vote-question\<close> element is there and empty.\<close>

definition untitled_roll :: xml where
  "untitled_roll =
     Element ''rollcall-vote''
       [Element ''action-date'' [Text ''2024-03-02''],
        Element ''action-time'' [Text ''14:00''],
        Element ''rollcall-num'' [Text ''11''],
        Element ''vote-question'' [],
        Element ''vote-result'' [Text ''Passed''],
        Element ''totals-by-vote''
          [Element ''yea-total'' [Text ''200''], Element ''nay-total'' [Text ''150'']]]"

text \<open>
  A relay whose every upstream request settles in the same way; a request is fresh when
  it carries \<^verbatim>\<open>If-None-Match: *\<close>.
\<close>

definition settles :: "axios_outcome \<Rightarrow> (string \<times> jsval) list \<Rightarrow> (jsval \<times> string) list \<Rightarrow> node" where
  "settles outcome parses prints =
     \<lparr>axios_get = (\<lambda>url. outcome),
      parse_json = map_of parses,
      stringify_json = (\<lambda>v. case map_of prints v of Some t \<Rightarrow> t | None \<Rightarrow> []),
      fresh = (\<lambda>headers chunk. map_of headers ''if-none-match'' = Some ''*'')\<rparr>"

text \<open>The Senate site answers 201 with the body \<^verbatim>\<open>{ }\<close>.\<close>

definition created_201 :: node where
  "created_201 = settles (Resolved 201 ''{ }'') [(''{ }'', JObj [])] [(JObj [], ''{}'')]"

text \<open>A record like that of scenario 2 without its \<^verbatim>\<open>counts\<close>.\<close>

definition no_counts :: jsval where
  "no_counts =
     JObj [(''vote_number'', JNum 5), (''vote_date'', JStr ''2024-03-01''),
           (''issue'', JStr '' HR1 ''), (''question'', JStr '' On Passage ''),
           (''result'', JStr ''Agreed to'')]"

section \<open>Properties\<close>

text \<open>
  C8: for valid sessions (1 or 2), \<open>getYearForCongress\<close> is
  \<open>1789 + (congress - 1) * 2 + (session - 1)\<close>, it is monotonic non-decreasing in
  (congress, session) ordered lexicographically, and it gives 2023 for (118, 1) and 2024
  for (118, 2).
\<close>

theorem getYearForCongress_monotone:
  assumes "valid_session s1" and "valid_session s2" and "lex_le (c1, s1) (c2, s2)"
  shows "getYearForCongress c1 s1 = 1789 + (c1 - 1) * 2 + (s1 - 1)
       \<and> getYearForCongress c1 s1 \<le> getYearForCongress c2 s2
       \<and> getYearForCongress 118 1 = 2023
       \<and> getYearForCongress 118 2 = 2024"
  using assms by (auto simp: getYearForCongress_def valid_session_def lex_le_def)

theorem getYearForCongress_monotone_witness:
  "valid_session 2 \<and> valid_session 1 \<and> lex_le (117, 2) (118, 1)
   \<and> getYearForCongress 117 2 = 2022 \<and> getYearForCongress 117 2 \<le> getYearForCongress 118 1"
  using getYearForCongress_monotone [of 2 1 117 118]
  by (simp add: valid_session_def lex_le_def getYearForCongress_def)

subsection \<open>Failures of a fetch\<close>

lemma and_then_Inr: "and_then r f = Inr y \<longleftrightarrow> (\<exists>x. r = Inr x \<and> f x = Inr y)"
  by (cases r) (simp_all add: and_then_def)

lemma js_trim_Inr: "js_trim v = Inr t \<longleftrightarrow> (\<exists>i. v = JStr i \<and> t = trim i)"
  by (cases v) auto

lemma fetchJson_fails:
  "(\<exists>e. fetchJson h url l = Inl e) \<longleftrightarrow> transport_failure h url \<or> invalid_json h url"
  by (auto simp: fetchJson_def transport_failure_def invalid_json_def ok_def
           split: fetch_outcome.splits body.splits option.splits if_splits)

lemma list_ex_find: "list_ex P xs \<longleftrightarrow> find P xs \<noteq> None"
  by (induction xs) auto

lemma fetchXml_fails:
  "(\<exists>e. fetchXml h url l = Inl e) \<longleftrightarrow> transport_failure h url \<or> malformed_xml h url"
  by (auto simp: fetchXml_def transport_failure_def malformed_xml_def ok_def Let_def
                 doc_querySelector_def list_ex_find
           split: fetch_outcome.splits body.splits option.splits if_splits)

lemma senate_map_quiet: "filter is_console_error (snd (senate_map s data)) = []"
  by (auto simp: senate_map_def split: sum.splits jsval.splits)

lemma senate_branch_quiet: "filter is_console_error (snd (senate_branch h s)) = []"
  by (auto simp: senate_branch_def Let_def senate_map_quiet split: sum.splits)

lemma house_branch_quiet: "filter is_console_error (snd (house_branch h s)) = []"
  by (auto simp: house_branch_def Let_def split: sum.splits)

lemma gather_quiet: "filter is_console_error (snd (gather h s)) = []"
  by (auto simp: gather_def senate_branch_quiet house_branch_quiet split: sum.splits)

lemma senate_failure_branch:
  assumes "senate_failure h s"
  shows "\<exists>e. fetchJson h (senateMenuUrl (congress s) (session s)) ''Senate Votes'' = Inl e
           \<and> senate_branch h s = (Inl e, [NetCall (senateMenuUrl (congress s) (session s))])"
proof -
  from assms have sel: "includeSenate s"
    and "transport_failure h (senateMenuUrl (congress s) (session s))
         \<or> invalid_json h (senateMenuUrl (congress s) (session s))"
    by (auto simp: senate_failure_def)
  then obtain e where e: "fetchJson h (senateMenuUrl (congress s) (session s)) ''Senate Votes'' = Inl e"
    using fetchJson_fails by blast
  with sel show ?thesis by (simp add: senate_branch_def)
qed

lemma house_failure_branch:
  assumes "house_failure h s"
  shows "\<exists>e. fetchXml h (HOUSE_ROLLS_INDEX (getYearForCongress (congress s) (session s))) ''House Votes'' = Inl e
           \<and> house_branch h s = (Inl e, [NetCall (HOUSE_ROLLS_INDEX (getYearForCongress (congress s) (session s)))])"
proof -
  let ?u = "HOUSE_ROLLS_INDEX (getYearForCongress (congress s) (session s))"
  from assms have sel: "includeHouse s" and "transport_failure h ?u \<or> malformed_xml h ?u"
    by (auto simp: house_failure_def)
  then obtain e where e: "fetchXml h ?u ''House Votes'' = Inl e"
    using fetchXml_fails by blast
  with sel show ?thesis by (simp add: house_branch_def Let_def)
qed

lemma fetchVotes_thrown:
  assumes "includeSenate s \<or> includeHouse s" and "fst (gather h s) = Inl e"
  shows "fetchVotes h s st =
           (st\<lparr>loading := False, error := Some (message_of e), votes := []\<rparr>,
            snd (gather h s) @ [ConsoleError e])"
  using assms by (auto simp: fetchVotes_def)

text \<open>
  C1: when the fetch of a selected branch fails (network failure, a status outside
  200..299, a Senate body that is not JSON, a House document with a parser error), the
  whole operation fails: the vote list is empty, one message is set and one error is
  logged. It is the first failure met: the Senate's, after which the House is not called;
  or the House's when the Senate branch had completed, whose votes are then dropped.
\<close>

theorem fetchVotes_all_or_nothing:
  assumes "senate_failure h s \<or> house_failure h s"
  shows "votes (fst (fetchVotes h s st)) = []
       \<and> (\<exists>m. error (fst (fetchVotes h s st)) = Some m)
       \<and> length (filter is_console_error (snd (fetchVotes h s st))) = 1
       \<and> (senate_failure h s \<longrightarrow>
            (\<exists>e. fetchJson h (senateMenuUrl (congress s) (session s)) ''Senate Votes'' = Inl e
               \<and> fetchVotes h s st =
                   (st\<lparr>loading := False, error := Some (message_of e), votes := []\<rparr>,
                    [NetCall (senateMenuUrl (congress s) (session s)), ConsoleError e])))
       \<and> (\<not> senate_failure h s \<and> (\<exists>sv. fst (senate_branch h s) = Inr sv) \<longrightarrow>
            (\<exists>e. fetchXml h (HOUSE_ROLLS_INDEX (getYearForCongress (congress s) (session s)))
                    ''House Votes'' = Inl e
               \<and> error (fst (fetchVotes h s st)) = Some (message_of e)))"
proof -
  from assms have sel: "includeSenate s \<or> includeHouse s"
    by (auto simp: senate_failure_def house_failure_def)
  have thrown: "\<exists>e. fst (gather h s) = Inl e"
  proof (cases "senate_failure h s")
    case True
    from senate_failure_branch [OF True] show ?thesis by (auto simp: gather_def)
  next
    case False
    with assms have "house_failure h s" by simp
    from house_failure_branch [OF this] show ?thesis
      by (auto simp: gather_def split: sum.splits)
  qed
  then obtain e where e: "fst (gather h s) = Inl e" ..
  note run = fetchVotes_thrown [OF sel e, of st]
  have a: "votes (fst (fetchVotes h s st)) = []" using run by simp
  have b: "\<exists>m. error (fst (fetchVotes h s st)) = Some m" using run by simp
  have c: "length (filter is_console_error (snd (fetchVotes h s st))) = 1"
    using run gather_quiet [of h s] by simp
  have d: "senate_failure h s \<longrightarrow>
            (\<exists>e. fetchJson h (senateMenuUrl (congress s) (session s)) ''Senate Votes'' = Inl e
               \<and> fetchVotes h s st =
                   (st\<lparr>loading := False, error := Some (message_of e), votes := []\<rparr>,
                    [NetCall (senateMenuUrl (congress s) (session s)), ConsoleError e]))"
  proof
    assume sf: "senate_failure h s"
    from senate_failure_branch [OF sf] obtain e' where
      e': "fetchJson h (senateMenuUrl (congress s) (session s)) ''Senate Votes'' = Inl e'"
          "senate_branch h s = (Inl e', [NetCall (senateMenuUrl (congress s) (session s))])"
      by blast
    then have g: "gather h s = (Inl e', [NetCall (senateMenuUrl (congress s) (session s))])"
      by (simp add: gather_def)
    then have "fst (gather h s) = Inl e'" by simp
    from fetchVotes_thrown [OF sel this, of st] g e'(1) show "\<exists>e. fetchJson h (senateMenuUrl (congress s) (session s)) ''Senate Votes'' = Inl e
               \<and> fetchVotes h s st =
                   (st\<lparr>loading := False, error := Some (message_of e), votes := []\<rparr>,
                    [NetCall (senateMenuUrl (congress s) (session s)), ConsoleError e])"
      by simp
  qed
  have f: "\<not> senate_failure h s \<and> (\<exists>sv. fst (senate_branch h s) = Inr sv) \<longrightarrow>
            (\<exists>e. fetchXml h (HOUSE_ROLLS_INDEX (getYearForCongress (congress s) (session s)))
                    ''House Votes'' = Inl e
               \<and> error (fst (fetchVotes h s st)) = Some (message_of e))"
  proof
    assume p: "\<not> senate_failure h s \<and> (\<exists>sv. fst (senate_branch h s) = Inr sv)"
    with assms have hf: "house_failure h s" by simp
    from p obtain sv where sv: "fst (senate_branch h s) = Inr sv" by blast
    from house_failure_branch [OF hf] obtain e' where
      e': "fetchXml h (HOUSE_ROLLS_INDEX (getYearForCongress (congress s) (session s))) ''House Votes'' = Inl e'"
          "house_branch h s = (Inl e', [NetCall (HOUSE_ROLLS_INDEX (getYearForCongress (congress s) (session s)))])"
      by blast
    with sv have "fst (gather h s) = Inl e'" by (simp add: gather_def)
    from fetchVotes_thrown [OF sel this, of st] e'(1) show "\<exists>e. fetchXml h (HOUSE_ROLLS_INDEX (getYearForCongress (congress s) (session s)))
                    ''House Votes'' = Inl e
               \<and> error (fst (fetchVotes h s st)) = Some (message_of e)"
      by simp
  qed
  from a b c d f show ?thesis by blast
qed

theorem fetchVotes_all_or_nothing_witness:
  "house_failure house_404 defaults
   \<and> fst (senate_branch house_404 defaults) = Inr [hr1_vote]
   \<and> votes (fst (fetchVotes house_404 defaults initial)) = []
   \<and> error (fst (fetchVotes house_404 defaults initial)) =
       Some (Message ''House Votes failed (HTTP 404). Error fetching data from House API'')
   \<and> senate_failure offline defaults
   \<and> fetchVotes offline defaults initial =
       (\<lparr>votes = [], loading = False,
         error = Some (Message ''Senate Votes failed (network): Failed to fetch'')\<rparr>,
        [NetCall ''/api/senate/118/2'',
         ConsoleError (Error ''Senate Votes failed (network): Failed to fetch'')])"
proof -
  have f: "house_failure house_404 defaults" by code_simp
  have nf: "\<not> senate_failure house_404 defaults" by code_simp
  have g: "fst (senate_branch house_404 defaults) = Inr [hr1_vote]" by code_simp
  have x: "fetchXml house_404
             (HOUSE_ROLLS_INDEX (getYearForCongress (congress defaults) (session defaults)))
             ''House Votes''
           = Inl (Error ''House Votes failed (HTTP 404). Error fetching data from House API'')"
    by code_simp
  note at_404 = fetchVotes_all_or_nothing [of house_404 defaults initial]
  from f at_404 have v: "votes (fst (fetchVotes house_404 defaults initial)) = []" by blast
  from f nf g at_404 obtain e where
    "fetchXml house_404
       (HOUSE_ROLLS_INDEX (getYearForCongress (congress defaults) (session defaults)))
       ''House Votes'' = Inl e"
    and "error (fst (fetchVotes house_404 defaults initial)) = Some (message_of e)"
    by blast
  with x have e: "error (fst (fetchVotes house_404 defaults initial)) =
       Some (Message ''House Votes failed (HTTP 404). Error fetching data from House API'')"
    by simp
  have sf: "senate_failure offline defaults" by code_simp
  have u: "senateMenuUrl (congress defaults) (session defaults) = ''/api/senate/118/2''"
    by code_simp
  have j: "fetchJson offline ''/api/senate/118/2'' ''Senate Votes''
           = Inl (Error ''Senate Votes failed (network): Failed to fetch'')"
    by code_simp
  from sf fetchVotes_all_or_nothing [of offline defaults initial] obtain e' where
    thrown: "fetchJson offline (senateMenuUrl (congress defaults) (session defaults))
               ''Senate Votes'' = Inl e'"
    and run: "fetchVotes offline defaults initial =
           (initial\<lparr>loading := False, error := Some (message_of e'), votes := []\<rparr>,
            [NetCall (senateMenuUrl (congress defaults) (session defaults)), ConsoleError e'])"
    by blast
  from thrown u j have "e' = Error ''Senate Votes failed (network): Failed to fetch''"
    by simp
  with run u have o: "fetchVotes offline defaults initial =
       (\<lparr>votes = [], loading = False,
         error = Some (Message ''Senate Votes failed (network): Failed to fetch'')\<rparr>,
        [NetCall ''/api/senate/118/2'',
         ConsoleError (Error ''Senate Votes failed (network): Failed to fetch'')])"
    by (simp add: initial_def)
  from f g v e sf o show ?thesis by blast
qed

text \<open>
  C6: with neither chamber selected, \<open>fetchVotes\<close> sets the message asking to select
  at least one chamber, leaves the vote list empty and does nothing else: no network
  call is made.
\<close>

theorem fetchVotes_no_chamber:
  assumes "\<not> includeHouse s" and "\<not> includeSenate s"
  shows "error (fst (fetchVotes h s st)) =
           Some (Message ''Please select at least one chamber (House or Senate) to fetch votes.'')
       \<and> votes (fst (fetchVotes h s st)) = []
       \<and> loading (fst (fetchVotes h s st)) = loading st
       \<and> snd (fetchVotes h s st) = []"
  using assms by (simp add: fetchVotes_def)

theorem fetchVotes_no_chamber_witness:
  "\<not> includeHouse no_chamber \<and> \<not> includeSenate no_chamber
   \<and> fetchVotes both_ok no_chamber initial =
       (\<lparr>votes = [], loading = False,
         error = Some (Message ''Please select at least one chamber (House or Senate) to fetch votes.'')\<rparr>, [])"
proof -
  have a: "\<not> includeHouse no_chamber" and b: "\<not> includeSenate no_chamber"
    by (simp_all add: no_chamber_def)
  from fetchVotes_no_chamber [OF a b, of both_ok initial] a b show ?thesis
    by (simp add: initial_def prod_eq_iff)
qed

subsection \<open>The two mappings\<close>

lemma senate_vote_Inr:
  "senate_vote s v = Inr x \<longleftrightarrow>
     (\<exists>num d i q r c y n rs ys ns k.
        js_get v ''vote_number'' = Inr num \<and> js_get v ''vote_date'' = Inr d
      \<and> js_get v ''issue'' = Inr (JStr i) \<and> js_get v ''question'' = Inr (JStr q)
      \<and> js_get v ''result'' = Inr r \<and> js_get v ''counts'' = Inr c
      \<and> js_get c ''Yea'' = Inr y \<and> js_get c ''Nay'' = Inr n
      \<and> js_to_string r = Inr rs \<and> js_to_string y = Inr ys \<and> js_to_string n = Inr ns
      \<and> js_to_string num = Inr k
      \<and> x = \<lparr>chamber = Senate, number = num, date = d,
               title = trim i @ '': '' @ trim q,
               result = rs @ '' ('' @ ys @ ''-'' @ ns @ '')'',
               key = ''s-'' @ string_of_int (congress s) @ ''-'' @ string_of_int (session s)
                     @ ''-'' @ k\<rparr>)"
  unfolding senate_vote_def and_then_Inr js_trim_Inr by auto

text \<open>
  C2: a Senate roll-call record of the feed's format (an object whose \<open>issue\<close> and
  \<open>question\<close> are strings and whose \<open>counts\<close> is an object, the other values being ones
  that print) is mapped, and to the vote with \<open>number = vote_number\<close>,
  \<open>date = vote_date\<close>, \<open>title = trim(issue) + ": " + trim(question)\<close>,
  \<open>result = result + " (" + counts.Yea + "-" + counts.Nay + ")"\<close> and
  \<open>key = "s-" + congress + "-" + session + "-" + vote_number\<close>. Whatever record is
  mapped, its vote has these fields, and a record is mapped only if its \<open>issue\<close> and
  \<open>question\<close> are strings and \<open>Yea\<close> and \<open>Nay\<close> can be read from its \<open>counts\<close>.
\<close>

theorem senate_vote_fields:
  "(v = JObj kvs
     \<and> map_of kvs ''vote_number'' = Some num \<and> js_to_string num = Inr k
     \<and> map_of kvs ''vote_date'' = Some d
     \<and> map_of kvs ''issue'' = Some (JStr i) \<and> map_of kvs ''question'' = Some (JStr q)
     \<and> map_of kvs ''result'' = Some r \<and> js_to_string r = Inr rs
     \<and> map_of kvs ''counts'' = Some (JObj cs)
     \<and> map_of cs ''Yea'' = Some y \<and> js_to_string y = Inr ys
     \<and> map_of cs ''Nay'' = Some n \<and> js_to_string n = Inr ns
    \<longrightarrow> senate_vote s v =
          Inr \<lparr>chamber = Senate, number = num, date = d,
               title = trim i @ '': '' @ trim q,
               result = rs @ '' ('' @ ys @ ''-'' @ ns @ '')'',
               key = ''s-'' @ string_of_int (congress s) @ ''-'' @ string_of_int (session s)
                     @ ''-'' @ k\<rparr>)
   \<and> (senate_vote s v = Inr x \<longrightarrow>
         chamber x = Senate
       \<and> js_get v ''vote_number'' = Inr (number x)
       \<and> js_get v ''vote_date'' = Inr (date x)
       \<and> (\<exists>i q. js_get v ''issue'' = Inr (JStr i) \<and> js_get v ''question'' = Inr (JStr q)
                \<and> title x = trim i @ '': '' @ trim q)
       \<and> (\<exists>r c y n rs ys ns.
             js_get v ''result'' = Inr r \<and> js_get v ''counts'' = Inr c
           \<and> js_get c ''Yea'' = Inr y \<and> js_get c ''Nay'' = Inr n
           \<and> js_to_string r = Inr rs \<and> js_to_string y = Inr ys \<and> js_to_string n = Inr ns
           \<and> result x = rs @ '' ('' @ ys @ ''-'' @ ns @ '')'')
       \<and> (\<exists>k. js_to_string (number x) = Inr k
              \<and> key x = ''s-'' @ string_of_int (congress s) @ ''-'' @ string_of_int (session s)
                        @ ''-'' @ k))"
proof (intro conjI impI)
  assume "v = JObj kvs
     \<and> map_of kvs ''vote_number'' = Some num \<and> js_to_string num = Inr k
     \<and> map_of kvs ''vote_date'' = Some d
     \<and> map_of kvs ''issue'' = Some (JStr i) \<and> map_of kvs ''question'' = Some (JStr q)
     \<and> map_of kvs ''result'' = Some r \<and> js_to_string r = Inr rs
     \<and> map_of kvs ''counts'' = Some (JObj cs)
     \<and> map_of cs ''Yea'' = Some y \<and> js_to_string y = Inr ys
     \<and> map_of cs ''Nay'' = Some n \<and> js_to_string n = Inr ns"
  then show "senate_vote s v =
          Inr \<lparr>chamber = Senate, number = num, date = d,
               title = trim i @ '': '' @ trim q,
               result = rs @ '' ('' @ ys @ ''-'' @ ns @ '')'',
               key = ''s-'' @ string_of_int (congress s) @ ''-'' @ string_of_int (session s)
                     @ ''-'' @ k\<rparr>"
    by (simp add: senate_vote_def and_then_def)
next
  assume m: "senate_vote s v = Inr x"
  then show "chamber x = Senate" unfolding senate_vote_Inr by auto
  from m show "js_get v ''vote_number'' = Inr (number x)" unfolding senate_vote_Inr by auto
  from m show "js_get v ''vote_date'' = Inr (date x)" unfolding senate_vote_Inr by auto
  from m show "\<exists>i q. js_get v ''issue'' = Inr (JStr i) \<and> js_get v ''question'' = Inr (JStr q)
                \<and> title x = trim i @ '': '' @ trim q"
    unfolding senate_vote_Inr by auto
  from m show "\<exists>r c y n rs ys ns.
             js_get v ''result'' = Inr r \<and> js_get v ''counts'' = Inr c
           \<and> js_get c ''Yea'' = Inr y \<and> js_get c ''Nay'' = Inr n
           \<and> js_to_string r = Inr rs \<and> js_to_string y = Inr ys \<and> js_to_string n = Inr ns
           \<and> result x = rs @ '' ('' @ ys @ ''-'' @ ns @ '')''"
    unfolding senate_vote_Inr by auto
  from m show "\<exists>k. js_to_string (number x) = Inr k
              \<and> key x = ''s-'' @ string_of_int (congress s) @ ''-'' @ string_of_int (session s)
                        @ ''-'' @ k"
    unfolding senate_vote_Inr by auto
qed

theorem senate_vote_fields_witness:
  "senate_vote defaults hr1_record = Inr hr1_vote
   \<and> title hr1_vote = ''HR1: On Passage''
   \<and> result hr1_vote = ''Agreed to (60-40)''
   \<and> key hr1_vote = ''s-118-2-5''
   \<and> js_get hr1_record ''vote_number'' = Inr (number hr1_vote)
   \<and> js_get hr1_record ''vote_date'' = Inr (date hr1_vote)
   \<and> senate_vote defaults no_counts = Inl TypeError"
proof -
  note shape = senate_vote_fields [where s = defaults and v = hr1_record
      and kvs = "[(''vote_number'', JNum 5), (''vote_date'', JStr ''2024-03-01''),
                  (''issue'', JStr '' HR1 ''), (''question'', JStr '' On Passage ''),
                  (''result'', JStr ''Agreed to''),
                  (''counts'', JObj [(''Yea'', JNum 60), (''Nay'', JNum 40)])]"
      and num = "JNum 5" and k = "''5''" and d = "JStr ''2024-03-01''"
      and i = "'' HR1 ''" and q = "'' On Passage ''"
      and r = "JStr ''Agreed to''" and rs = "''Agreed to''"
      and cs = "[(''Yea'', JNum 60), (''Nay'', JNum 40)]"
      and y = "JNum 60" and ys = "''60''" and n = "JNum 40" and ns = "''40''"
      and x = hr1_vote]
  have p5: "js_to_string (JNum 5) = Inr ''5''" and p60: "js_to_string (JNum 60) = Inr ''60''"
    and p40: "js_to_string (JNum 40) = Inr ''40''"
    by code_simp+
  have t1: "trim '' HR1 '' = ''HR1''" and t2: "trim '' On Passage '' = ''On Passage''"
    by code_simp+
  have c: "string_of_int (congress defaults) = ''118''"
    and ss: "string_of_int (session defaults) = ''2''"
    by code_simp+
  from shape p5 p60 p40
  have "senate_vote defaults hr1_record =
          Inr \<lparr>chamber = Senate, number = JNum 5, date = JStr ''2024-03-01'',
               title = trim '' HR1 '' @ '': '' @ trim '' On Passage '',
               result = ''Agreed to'' @ '' ('' @ ''60'' @ ''-'' @ ''40'' @ '')'',
               key = ''s-'' @ string_of_int (congress defaults) @ ''-''
                     @ string_of_int (session defaults) @ ''-'' @ ''5''\<rparr>"
    by (simp add: hr1_record_def)
  then have m: "senate_vote defaults hr1_record = Inr hr1_vote"
    by (simp add: t1 t2 c ss hr1_vote_def)
  from shape m
  have "js_get hr1_record ''vote_number'' = Inr (number hr1_vote)"
    and "js_get hr1_record ''vote_date'' = Inr (date hr1_vote)"
    by blast+
  moreover have "senate_vote defaults no_counts = Inl TypeError" by code_simp
  ultimately show ?thesis using m by (simp add: hr1_vote_def)
qed

lemma map_throwing_mem:
  assumes "map_throwing f xs = Inr ys" and "y \<in> set ys"
  shows "\<exists>x \<in> set xs. f x = Inr y"
  using assms
proof (induction xs arbitrary: ys)
  case Nil
  then show ?case by simp
next
  case (Cons a xs)
  from Cons.prems(1) obtain b bs where b: "f a = Inr b" and bs: "map_throwing f xs = Inr bs"
    and ys: "ys = b # bs"
    by (auto simp: and_then_Inr)
  show ?case
  proof (cases "y = b")
    case True
    with b show ?thesis by auto
  next
    case False
    with Cons.prems(2) ys have "y \<in> set bs" by simp
    from Cons.IH [OF bs this] show ?thesis by auto
  qed
qed

lemma map_throwing_all:
  assumes "map_throwing f xs = Inr ys"
  shows "list_all2 (\<lambda>x y. f x = Inr y) xs ys"
  using assms by (induction xs arbitrary: ys) (auto simp: and_then_Inr)

lemma js_get_truthy:
  assumes "js_get v k = Inr x" and "truthy x"
  shows "own_member v k = Some x"
  using assms by (cases v) (auto split: option.splits)

lemma house_vote_chamber: "chamber (house_vote year v) = House"
  by (simp add: house_vote_def)

lemma senate_vote_chamber: "senate_vote s v = Inr x \<Longrightarrow> chamber x = Senate"
  by (auto simp: senate_vote_def and_then_Inr)

lemma senate_branch_votes:
  assumes "fst (senate_branch h s) = Inr sv" and "x \<in> set sv"
  shows "\<exists>data rc rcl v.
           fetchJson h (senateMenuUrl (congress s) (session s)) ''Senate Votes'' = Inr data
         \<and> own_member data ''roll_calls'' = Some rc
         \<and> own_member rc ''roll_call'' = Some (JArr rcl)
         \<and> v \<in> set rcl \<and> senate_vote s v = Inr x"
proof -
  let ?u = "senateMenuUrl (congress s) (session s)"
  from assms have sel: "includeSenate s"
    by (auto simp: senate_branch_def split: if_splits)
  with assms(1) obtain data where data: "fetchJson h ?u ''Senate Votes'' = Inr data"
    and m: "fst (senate_map s data) = Inr sv"
    by (auto simp: senate_branch_def Let_def split: sum.splits)
  from m assms(2) obtain rc rcl where rc: "js_get data ''roll_calls'' = Inr rc" "truthy rc"
    and rcl: "js_get rc ''roll_call'' = Inr (JArr rcl)"
    and mp: "map_throwing (senate_vote s) rcl = Inr sv"
    by (auto simp: senate_map_def split: sum.splits if_splits jsval.splits)
  from map_throwing_mem [OF mp assms(2)] obtain v where v: "v \<in> set rcl" "senate_vote s v = Inr x"
    by blast
  have "own_member data ''roll_calls'' = Some rc" using rc by (rule js_get_truthy)
  moreover have "own_member rc ''roll_call'' = Some (JArr rcl)" using rcl by (rule js_get_truthy) simp
  ultimately show ?thesis using data v by blast
qed

lemma house_branch_votes:
  assumes "fst (house_branch h s) = Inr hv" and "x \<in> set hv"
  shows "\<exists>doc v.
           fetchXml h (HOUSE_ROLLS_INDEX (getYearForCongress (congress s) (session s))) ''House Votes''
             = Inr doc
         \<and> v \<in> set (doc_querySelectorAll doc ''rollcall-vote'')
         \<and> x = house_vote (getYearForCongress (congress s) (session s)) v"
  using assms
  by (auto simp: house_branch_def Let_def split: if_splits sum.splits)

lemma mset_sorted_pairs: "mset (map snd (sort_key fst zs)) = mset (map snd zs)"
proof -
  have "mset (map snd (sort_key fst zs)) = image_mset snd (mset (sort_key fst zs))"
    by (rule mset_map [symmetric, THEN sym])
  also have "\<dots> = image_mset snd (mset zs)" by (simp only: mset_sort)
  also have "\<dots> = mset (map snd zs)" by (rule mset_map [symmetric])
  finally show ?thesis .
qed

lemma rearrange_mset: "mset (rearrange order xs) = mset xs"
proof -
  have "map snd (zip (map (place order) [0..<length xs]) xs) = xs"
    by (simp add: map_snd_zip)
  with mset_sorted_pairs [of "zip (map (place order) [0..<length xs]) xs"]
  show ?thesis by (simp add: rearrange_def)
qed

lemma sort_by_date_mset:
  assumes "sort_by_date h xs = Inr r"
  shows "mset r = mset xs"
  using assms by (auto simp: sort_by_date_def rearrange_mset split: option.splits)

lemma votes_come_from_branches:
  assumes "x \<in> set (votes (fst (fetchVotes h s st)))"
  shows "\<exists>sv hv. fst (senate_branch h s) = Inr sv \<and> fst (house_branch h s) = Inr hv
               \<and> x \<in> set sv \<union> set hv"
proof -
  from assms obtain vs where g: "fst (gather h s) = Inr vs" and x: "x \<in> set vs"
    by (auto simp: fetchVotes_def split: if_splits sum.splits)
  from g obtain sv hv where sv: "fst (senate_branch h s) = Inr sv"
    and hv: "fst (house_branch h s) = Inr hv"
    and srt: "sort_by_date h (sv @ hv) = Inr vs"
    by (auto simp: gather_def split: sum.splits)
  from sort_by_date_mset [OF srt] have "set vs = set (sv @ hv)" by (rule mset_eq_setD)
  with x sv hv show ?thesis by auto
qed

lemma querySelector_Some:
  assumes "querySelector v n = Some e"
  shows "e \<in> set (descendants v) \<and> is_element n e"
  using assms by (auto simp: querySelector_def find_Some_iff)

lemma querySelector_None:
  "querySelector v n = None \<longleftrightarrow> (\<forall>e \<in> set (descendants v). \<not> is_element n e)"
  by (auto simp: querySelector_def find_None_iff)

lemma opt_text_shown: "opt_text q = shown (map_option textContent q)"
  by (cases q) simp_all

lemma js_to_string_opt: "js_to_string (opt_textContent q) = Inr (opt_text q)"
  by (cases q) simp_all

text \<open>
  C3 (amended): for a \<^verbatim>\<open>rollcall-vote\<close> element and a year, the mapped vote has the
  \<^verbatim>\<open>action-date\<close> text and the \<^verbatim>\<open>action-time\<close> text joined by \<open>T\<close> as date, an absent
  one entering as the word \<^verbatim>\<open>undefined\<close>; the \<^verbatim>\<open>rollcall-num\<close> text as number; the
  \<^verbatim>\<open>vote-question\<close> text as title, and \<open>N/A\<close> when that element is absent or its text
  is empty; \<open>vote-result + " (" + yea-total + "-" + nay-total + ")"\<close> as result; and
  \<open>"h-" + year + "-" + rollcall-num\<close> as key. Each text is that of the first matching
  descendant.
\<close>

theorem house_vote_fields:
  "chamber (house_vote year v) = House
   \<and> date (house_vote year v) =
       JStr (shown (text_of v ''action-date'') @ ''T'' @ shown (text_of v ''action-time''))
   \<and> number (house_vote year v) =
       (case text_of v ''rollcall-num'' of None \<Rightarrow> JUndefined | Some t \<Rightarrow> JStr t)
   \<and> title (house_vote year v) =
       (case text_of v ''vote-question'' of
          None \<Rightarrow> ''N/A''
        | Some t \<Rightarrow> if t = [] then ''N/A'' else t)
   \<and> result (house_vote year v) =
       shown (text_of v ''vote-result'') @ '' (''
       @ shown (child_text_of v ''totals-by-vote'' ''yea-total'') @ ''-''
       @ shown (child_text_of v ''totals-by-vote'' ''nay-total'') @ '')''
   \<and> key (house_vote year v) =
       ''h-'' @ string_of_int year @ ''-'' @ shown (text_of v ''rollcall-num'')"
proof -
  have n: "number (house_vote year v) =
       (case text_of v ''rollcall-num'' of None \<Rightarrow> JUndefined | Some t \<Rightarrow> JStr t)"
    by (cases "querySelector v ''rollcall-num''") (simp_all add: house_vote_def text_of_def)
  have t: "title (house_vote year v) =
       (case text_of v ''vote-question'' of
          None \<Rightarrow> ''N/A''
        | Some t \<Rightarrow> if t = [] then ''N/A'' else t)"
    by (cases "querySelector v ''vote-question''") (simp_all add: house_vote_def text_of_def)
  show ?thesis
    using n t by (simp add: house_vote_def opt_text_shown text_of_def child_text_of_def)
qed

theorem house_vote_fields_witness:
  "house_vote 2024 roll10 = roll10_vote
   \<and> date (house_vote 2024 roll10) = JStr ''2024-03-02T14:00''
   \<and> result (house_vote 2024 roll10) = ''Passed (200-150)''
   \<and> key (house_vote 2024 roll10) = ''h-2024-10''"
proof -
  have a: "text_of roll10 ''action-date'' = Some ''2024-03-02''"
    and b: "text_of roll10 ''action-time'' = Some ''14:00''"
    and c: "text_of roll10 ''vote-result'' = Some ''Passed''"
    and d: "child_text_of roll10 ''totals-by-vote'' ''yea-total'' = Some ''200''"
    and e: "child_text_of roll10 ''totals-by-vote'' ''nay-total'' = Some ''150''"
    and f: "text_of roll10 ''rollcall-num'' = Some ''10''"
    and g: "string_of_int 2024 = ''2024''"
    by code_simp+
  have m: "house_vote 2024 roll10 = roll10_vote" by code_simp
  from house_vote_fields [of 2024 roll10] a b c d e f g m show ?thesis by simp
qed

theorem house_vote_empty_question:
  "text_of untitled_roll ''vote-question'' = Some []
   \<and> title (house_vote 2024 untitled_roll) = ''N/A''"
  by code_simp

subsection \<open>Numbers and keys of the fetched votes\<close>

lemma house_vote_number:
  "number (house_vote year v) = JUndefined \<or> (\<exists>t. number (house_vote year v) = JStr t)"
  by (cases "querySelector v ''rollcall-num''") (simp_all add: house_vote_def)

lemma senate_vote_number:
  assumes "senate_vote s v = Inr x"
  shows "js_get v ''vote_number'' = Inr (number x)"
  using assms by (auto simp: senate_vote_def and_then_Inr)

lemma house_vote_number_text:
  "number (house_vote year v) =
     (case text_of v ''rollcall-num'' of None \<Rightarrow> JUndefined | Some t \<Rightarrow> JStr t)"
  by (cases "querySelector v ''rollcall-num''") (simp_all add: house_vote_def text_of_def)

lemma house_vote_number_absent:
  "number (house_vote year v) = JUndefined
     \<longleftrightarrow> (\<forall>e \<in> set (descendants v). \<not> is_element ''rollcall-num'' e)"
  by (cases "querySelector v ''rollcall-num''")
     (simp_all add: house_vote_def flip: querySelector_None)

text \<open>
  C10 (amended): the number of a fetched vote is what the feed gave. For a House vote,
  mapped from a \<^verbatim>\<open>rollcall-vote\<close> element of the fetched document, it is the text of
  that element's \<^verbatim>\<open>rollcall-num\<close>, a string, and \<^verbatim>\<open>undefined\<close> exactly when the element
  has no \<^verbatim>\<open>rollcall-num\<close> below it: never an integer. For a Senate vote it is the
  \<^verbatim>\<open>vote_number\<close> value of the record of the parsed roll-call array it is mapped from,
  unchanged.
\<close>

theorem fetched_numbers:
  assumes "x \<in> set (votes (fst (fetchVotes h s st)))"
  shows "(chamber x = House \<longrightarrow>
            \<not> is_integer (number x)
          \<and> (\<exists>doc v.
               fetchXml h (HOUSE_ROLLS_INDEX (getYearForCongress (congress s) (session s)))
                 ''House Votes'' = Inr doc
             \<and> v \<in> set (doc_querySelectorAll doc ''rollcall-vote'')
             \<and> x = house_vote (getYearForCongress (congress s) (session s)) v
             \<and> number x =
                 (case text_of v ''rollcall-num'' of None \<Rightarrow> JUndefined | Some t \<Rightarrow> JStr t)
             \<and> (number x = JUndefined
                  \<longleftrightarrow> (\<forall>e \<in> set (descendants v). \<not> is_element ''rollcall-num'' e))))
       \<and> (chamber x = Senate \<longrightarrow>
            (\<exists>data rc rcl v.
               fetchJson h (senateMenuUrl (congress s) (session s)) ''Senate Votes'' = Inr data
             \<and> own_member data ''roll_calls'' = Some rc
             \<and> own_member rc ''roll_call'' = Some (JArr rcl)
             \<and> v \<in> set rcl \<and> senate_vote s v = Inr x
             \<and> js_get v ''vote_number'' = Inr (number x)))"
proof -
  from votes_come_from_branches [OF assms] obtain sv hv where sv: "fst (senate_branch h s) = Inr sv"
    and hv: "fst (house_branch h s) = Inr hv" and x: "x \<in> set sv \<union> set hv"
    by blast
  show ?thesis
  proof (cases "x \<in> set sv")
    case True
    from senate_branch_votes [OF sv True] obtain data rc rcl v where
      d: "fetchJson h (senateMenuUrl (congress s) (session s)) ''Senate Votes'' = Inr data"
         "own_member data ''roll_calls'' = Some rc"
         "own_member rc ''roll_call'' = Some (JArr rcl)"
         "v \<in> set rcl" and m: "senate_vote s v = Inr x"
      by blast
    from senate_vote_chamber [OF m] have "chamber x = Senate" .
    moreover from senate_vote_number [OF m] d m
    have "\<exists>data rc rcl v.
               fetchJson h (senateMenuUrl (congress s) (session s)) ''Senate Votes'' = Inr data
             \<and> own_member data ''roll_calls'' = Some rc
             \<and> own_member rc ''roll_call'' = Some (JArr rcl)
             \<and> v \<in> set rcl \<and> senate_vote s v = Inr x
             \<and> js_get v ''vote_number'' = Inr (number x)"
      by blast
    ultimately show ?thesis by simp
  next
    case False
    with x have "x \<in> set hv" by simp
    from house_branch_votes [OF hv this] obtain doc v where
      doc: "fetchXml h (HOUSE_ROLLS_INDEX (getYearForCongress (congress s) (session s)))
              ''House Votes'' = Inr doc"
      and v: "v \<in> set (doc_querySelectorAll doc ''rollcall-vote'')"
      and xv: "x = house_vote (getYearForCongress (congress s) (session s)) v"
      by blast
    have n: "number x =
               (case text_of v ''rollcall-num'' of None \<Rightarrow> JUndefined | Some t \<Rightarrow> JStr t)"
      unfolding xv by (rule house_vote_number_text)
    have a: "number x = JUndefined
               \<longleftrightarrow> (\<forall>e \<in> set (descendants v). \<not> is_element ''rollcall-num'' e)"
      unfolding xv by (rule house_vote_number_absent)
    from n have i: "\<not> is_integer (number x)" by (cases "text_of v ''rollcall-num''") simp_all
    have c: "chamber x = House" unfolding xv by (rule house_vote_chamber)
    from doc v xv n a
    have "\<exists>doc v.
               fetchXml h (HOUSE_ROLLS_INDEX (getYearForCongress (congress s) (session s)))
                 ''House Votes'' = Inr doc
             \<and> v \<in> set (doc_querySelectorAll doc ''rollcall-vote'')
             \<and> x = house_vote (getYearForCongress (congress s) (session s)) v
             \<and> number x =
                 (case text_of v ''rollcall-num'' of None \<Rightarrow> JUndefined | Some t \<Rightarrow> JStr t)
             \<and> (number x = JUndefined
                  \<longleftrightarrow> (\<forall>e \<in> set (descendants v). \<not> is_element ''rollcall-num'' e))"
      by blast
    with i c show ?thesis by simp
  qed
qed

theorem fetched_numbers_witness:
  "roll10_vote \<in> set (votes (fst (fetchVotes both_ok defaults initial)))
   \<and> chamber roll10_vote = House
   \<and> number roll10_vote = JStr ''10''
   \<and> text_of roll10 ''rollcall-num'' = Some ''10''
   \<and> \<not> is_integer (number roll10_vote)
   \<and> (\<exists>doc v.
         fetchXml both_ok
           (HOUSE_ROLLS_INDEX (getYearForCongress (congress defaults) (session defaults)))
           ''House Votes'' = Inr doc
       \<and> v \<in> set (doc_querySelectorAll doc ''rollcall-vote'')
       \<and> roll10_vote = house_vote (getYearForCongress (congress defaults) (session defaults)) v
       \<and> number roll10_vote =
           (case text_of v ''rollcall-num'' of None \<Rightarrow> JUndefined | Some t \<Rightarrow> JStr t))
   \<and> hr1_vote \<in> set (votes (fst (fetchVotes both_ok defaults initial)))
   \<and> chamber hr1_vote = Senate
   \<and> (\<exists>data rc rcl v.
         fetchJson both_ok (senateMenuUrl (congress defaults) (session defaults)) ''Senate Votes''
           = Inr data
       \<and> own_member data ''roll_calls'' = Some rc
       \<and> own_member rc ''roll_call'' = Some (JArr rcl)
       \<and> v \<in> set rcl \<and> js_get v ''vote_number'' = Inr (number hr1_vote))"
proof -
  have m: "roll10_vote \<in> set (votes (fst (fetchVotes both_ok defaults initial)))"
    by code_simp
  have c: "chamber roll10_vote = House" by (simp add: roll10_vote_def)
  have t: "text_of roll10 ''rollcall-num'' = Some ''10''" by code_simp
  from fetched_numbers [OF m] c have i: "\<not> is_integer (number roll10_vote)" by blast
  from fetched_numbers [OF m] c
  have e: "\<exists>doc v.
         fetchXml both_ok
           (HOUSE_ROLLS_INDEX (getYearForCongress (congress defaults) (session defaults)))
           ''House Votes'' = Inr doc
       \<and> v \<in> set (doc_querySelectorAll doc ''rollcall-vote'')
       \<and> roll10_vote = house_vote (getYearForCongress (congress defaults) (session defaults)) v
       \<and> number roll10_vote =
           (case text_of v ''rollcall-num'' of None \<Rightarrow> JUndefined | Some t \<Rightarrow> JStr t)"
    by blast
  have m': "hr1_vote \<in> set (votes (fst (fetchVotes both_ok defaults initial)))"
    by code_simp
  have c': "chamber hr1_vote = Senate" by (simp add: hr1_vote_def)
  from fetched_numbers [OF m'] c'
  have "\<exists>data rc rcl v.
         fetchJson both_ok (senateMenuUrl (congress defaults) (session defaults)) ''Senate Votes''
           = Inr data
       \<and> own_member data ''roll_calls'' = Some rc
       \<and> own_member rc ''roll_call'' = Some (JArr rcl)
       \<and> v \<in> set rcl \<and> js_get v ''vote_number'' = Inr (number hr1_vote)"
    by blast
  with m c t i e m' c' show ?thesis by (simp add: roll10_vote_def)
qed

theorem house_number_is_text:
  "map number (votes (fst (fetchVotes both_ok defaults initial))) = [JStr ''10'', JNum 5]
   \<and> is_integer (JStr ''10'') = False"
  by code_simp

lemma key_prefix_chamber:
  assumes "key_prefix s c @ k = key_prefix s c' @ k'"
  shows "c = c'"
  using assms by (cases c; cases c') simp_all

lemma senate_vote_key:
  assumes "senate_vote s v = Inr x"
  shows "\<exists>k. js_to_string (number x) = Inr k \<and> key x = key_prefix s (chamber x) @ k"
  using assms by (auto simp: senate_vote_def and_then_Inr)

lemma house_vote_key:
  "\<exists>k. js_to_string (number (house_vote (getYearForCongress (congress s) (session s)) v)) = Inr k
      \<and> key (house_vote (getYearForCongress (congress s) (session s)) v) =
          key_prefix s (chamber (house_vote (getYearForCongress (congress s) (session s)) v)) @ k"
  by (simp add: house_vote_def js_to_string_opt)

lemma key_of_fetched_vote:
  assumes "x \<in> set (votes (fst (fetchVotes h s st)))"
  shows "\<exists>k. js_to_string (number x) = Inr k \<and> key x = key_prefix s (chamber x) @ k"
proof -
  from votes_come_from_branches [OF assms] obtain sv hv where sv: "fst (senate_branch h s) = Inr sv"
    and hv: "fst (house_branch h s) = Inr hv" and x: "x \<in> set sv \<union> set hv"
    by blast
  show ?thesis
  proof (cases "x \<in> set sv")
    case True
    from senate_branch_votes [OF sv True] obtain v where "senate_vote s v = Inr x" by blast
    then show ?thesis by (rule senate_vote_key)
  next
    case False
    with x have "x \<in> set hv" by simp
    from house_branch_votes [OF hv this] obtain v where
      xv: "x = house_vote (getYearForCongress (congress s) (session s)) v"
      by blast
    show ?thesis unfolding xv by (rule house_vote_key)
  qed
qed

text \<open>
  C9 (amended): in the batch of one \<open>fetchVotes\<close>, a Senate key never equals a House
  key, and the keys are pairwise distinct exactly when no two votes of the same chamber
  have the same number text. The feed is not checked for repeated numbers.
\<close>

theorem fetched_keys:
  "(\<forall>a \<in> set (votes (fst (fetchVotes h s st))). \<forall>b \<in> set (votes (fst (fetchVotes h s st))).
      chamber a \<noteq> chamber b \<longrightarrow> key a \<noteq> key b)
   \<and> (distinct (map key (votes (fst (fetchVotes h s st))))
        \<longleftrightarrow> distinct (map (\<lambda>v. (chamber v, js_to_string (number v)))
                          (votes (fst (fetchVotes h s st)))))"
proof -
  let ?vs = "votes (fst (fetchVotes h s st))"
  let ?g = "\<lambda>v. (chamber v, js_to_string (number v))"
  have same: "key a = key b \<longleftrightarrow> ?g a = ?g b" if a: "a \<in> set ?vs" and b: "b \<in> set ?vs" for a b
  proof -
    from key_of_fetched_vote [OF a] obtain k where k: "js_to_string (number a) = Inr k"
      "key a = key_prefix s (chamber a) @ k" by blast
    from key_of_fetched_vote [OF b] obtain k' where k': "js_to_string (number b) = Inr k'"
      "key b = key_prefix s (chamber b) @ k'" by blast
    show ?thesis
    proof
      assume eq: "key a = key b"
      with k k' have "chamber a = chamber b" using key_prefix_chamber by metis
      with eq k k' show "?g a = ?g b" by simp
    next
      assume "?g a = ?g b"
      with k k' show "key a = key b" by simp
    qed
  qed
  have cross: "\<forall>a \<in> set ?vs. \<forall>b \<in> set ?vs. chamber a \<noteq> chamber b \<longrightarrow> key a \<noteq> key b"
    using same by auto
  have "distinct (map key ?vs) \<longleftrightarrow> distinct (map ?g ?vs)"
  proof -
    have "inj_on key (set ?vs) \<longleftrightarrow> inj_on ?g (set ?vs)"
      unfolding inj_on_def using same by blast
    then show ?thesis by (simp add: distinct_map)
  qed
  with cross show ?thesis by blast
qed

theorem fetched_keys_witness:
  "votes (fst (fetchVotes both_ok defaults initial)) = [roll10_vote, hr1_vote]
   \<and> map key (votes (fst (fetchVotes both_ok defaults initial))) = [''h-2024-10'', ''s-118-2-5'']
   \<and> chamber roll10_vote \<noteq> chamber hr1_vote
   \<and> key roll10_vote \<noteq> key hr1_vote
   \<and> distinct (map key (votes (fst (fetchVotes both_ok defaults initial))))"
proof -
  have vs: "votes (fst (fetchVotes both_ok defaults initial)) = [roll10_vote, hr1_vote]"
    by code_simp
  have k: "map key (votes (fst (fetchVotes both_ok defaults initial))) =
             [''h-2024-10'', ''s-118-2-5'']"
    by code_simp
  have c: "chamber roll10_vote \<noteq> chamber hr1_vote" by (simp add: roll10_vote_def hr1_vote_def)
  have d: "distinct (map (\<lambda>v. (chamber v, js_to_string (number v)))
                   (votes (fst (fetchVotes both_ok defaults initial))))"
    by code_simp
  note at_both = fetched_keys [of both_ok defaults initial]
  from at_both d
  have dk: "distinct (map key (votes (fst (fetchVotes both_ok defaults initial))))" by blast
  from vs have "roll10_vote \<in> set (votes (fst (fetchVotes both_ok defaults initial)))"
    and "hr1_vote \<in> set (votes (fst (fetchVotes both_ok defaults initial)))"
    by simp_all
  with at_both c have "key roll10_vote \<noteq> key hr1_vote" by blast
  with vs k c dk show ?thesis by blast
qed

theorem repeated_number_repeats_key:
  "map key (votes (fst (fetchVotes repeated_number senate_only initial))) =
     [''s-118-2-5'', ''s-118-2-5'']"
  by code_simp

subsection \<open>The sort\<close>

lemma fetchVotes_returned:
  assumes "includeSenate s \<or> includeHouse s" and "fst (gather h s) = Inr vs"
  shows "fetchVotes h s st = (st\<lparr>loading := False, error := None, votes := vs\<rparr>, snd (gather h s))"
  using assms by (auto simp: fetchVotes_def)

text \<open>
  C4: a Senate feed holds three roll calls dated 2024-03-01, TBD and 2024-03-02, in that
  order, and only the Senate is selected. The fetch succeeds and returns the three votes
  in the order of the feed, the vote of 1 March before the vote of 2 March: not the most
  recent first. The date TBD has no time value, so the comparator gives \<open>NaN\<close>, counted
  as 0, for TBD against either neighbour, while it puts 1 March after 2 March: no number
  in the place of the missing time value gives these three verdicts.
\<close>

theorem undated_vote_breaks_order:
  "error (fst (fetchVotes undated_between senate_only initial)) = None
   \<and> votes (fst (fetchVotes undated_between senate_only initial)) =
       [dated_vote 1 ''2024-03-01'', dated_vote 2 ''TBD'', dated_vote 3 ''2024-03-02'']
   \<and> time_value undated_between (dated_vote 1 ''2024-03-01'') = Some 1709251200000
   \<and> time_value undated_between (dated_vote 2 ''TBD'') = None
   \<and> time_value undated_between (dated_vote 3 ''2024-03-02'') = Some 1709337600000
   \<and> SortCompare (by_date undated_between)
         (dated_vote 1 ''2024-03-01'') (dated_vote 2 ''TBD'') = Inr 0
   \<and> SortCompare (by_date undated_between)
         (dated_vote 2 ''TBD'') (dated_vote 3 ''2024-03-02'') = Inr 0
   \<and> SortCompare (by_date undated_between)
         (dated_vote 1 ''2024-03-01'') (dated_vote 3 ''2024-03-02'') = Inr 86400000"
  by code_simp

lemma dated_votes_newest_first:
  "votes (fst (fetchVotes both_ok defaults initial)) = [roll10_vote, hr1_vote]
   \<and> map date (votes (fst (fetchVotes undated_third senate_only initial))) =
       [JStr ''2024-03-03'', JStr ''2024-03-02'', JStr ''2024-03-01'', JStr ''TBD'']"
  by code_simp

subsection \<open>A menu without roll calls\<close>

lemma roll_call_missing_map:
  assumes "data \<noteq> JNull" and "data \<noteq> JUndefined" and "roll_call_missing data"
  shows "senate_map s data = (Inr [], [ConsoleWarn])"
proof -
  obtain rc where rc: "js_get data ''roll_calls'' = Inr rc"
    using assms(1,2) by (cases data) auto
  show ?thesis
  proof (cases "truthy rc")
    case False
    with rc show ?thesis by (simp add: senate_map_def)
  next
    case True
    from js_get_truthy [OF rc True] have m: "own_member data ''roll_calls'' = Some rc" .
    from True obtain rcl where rcl: "js_get rc ''roll_call'' = Inr rcl"
      by (cases rc) auto
    have "\<not> truthy rcl"
    proof
      assume t: "truthy rcl"
      from js_get_truthy [OF rcl t] m True t assms(3) show False
        by (simp add: roll_call_missing_def)
    qed
    with rc True rcl show ?thesis by (simp add: senate_map_def)
  qed
qed

lemma house_vote_dated: "\<exists>t. new_Date h (date (house_vote year v)) = Inr t"
  by (simp add: house_vote_def)

lemma thrown_None:
  assumes "\<forall>r \<in> set rs. \<exists>v. r = Inr v"
  shows "thrown rs = None"
  using assms by (induction rs rule: thrown.induct) auto

lemma pairs_subset: "set (pairs xs) \<subseteq> set xs \<times> set xs"
  by (auto simp: pairs_def)

lemma sort_by_date_total:
  assumes "\<forall>a \<in> set xs. \<forall>b \<in> set xs. \<exists>c. by_date h a b = Inr c"
  shows "\<exists>r. sort_by_date h xs = Inr r"
proof -
  have "\<forall>r \<in> set (map (\<lambda>(a, b). SortCompare (by_date h) a b) (pairs xs)). \<exists>v. r = Inr v"
  proof
    fix r
    assume "r \<in> set (map (\<lambda>(a, b). SortCompare (by_date h) a b) (pairs xs))"
    then obtain a b where ab: "(a, b) \<in> set (pairs xs)" and r: "r = SortCompare (by_date h) a b"
      by auto
    from ab pairs_subset have "a \<in> set xs" and "b \<in> set xs" by auto
    with assms obtain c where "by_date h a b = Inr c" by blast
    with r show "\<exists>v. r = Inr v" by (simp add: SortCompare_def and_then_def)
  qed
  from thrown_None [OF this] show ?thesis by (simp add: sort_by_date_def)
qed

lemma house_votes_sortable:
  assumes "fst (house_branch h s) = Inr hv"
  shows "\<exists>r. sort_by_date h hv = Inr r"
proof (rule sort_by_date_total, intro ballI)
  fix a b
  assume "a \<in> set hv" and "b \<in> set hv"
  from house_branch_votes [OF assms this(1)] house_branch_votes [OF assms this(2)]
  obtain ta tb where "new_Date h (date a) = Inr ta" and "new_Date h (date b) = Inr tb"
    using house_vote_dated by metis
  then show "\<exists>c. by_date h a b = Inr c" by (simp add: by_date_def and_then_def)
qed

text \<open>
  C7 (amended): when the Senate body parses to a value other than \<^verbatim>\<open>null\<close> in which
  \<^verbatim>\<open>roll_calls.roll_call\<close> is absent, or \<^verbatim>\<open>roll_calls\<close> or \<^verbatim>\<open>roll_call\<close> is falsy
  (\<^verbatim>\<open>null\<close>, \<^verbatim>\<open>false\<close>, \<^verbatim>\<open>0\<close>, the empty string), the Senate branch yields no vote
  and only logs a warning; the fetch does not fail, and the votes of the House branch, if
  it is selected and succeeds, are returned.
\<close>

theorem missing_roll_call_is_soft:
  assumes "includeSenate s"
    and "fetchJson h (senateMenuUrl (congress s) (session s)) ''Senate Votes'' = Inr data"
    and "data \<noteq> JNull" and "data \<noteq> JUndefined"
    and "roll_call_missing data"
    and "fst (house_branch h s) = Inr hv"
  shows "senate_branch h s =
           (Inr [], [NetCall (senateMenuUrl (congress s) (session s)), ConsoleWarn])
       \<and> error (fst (fetchVotes h s st)) = None
       \<and> mset (votes (fst (fetchVotes h s st))) = mset hv"
proof -
  from roll_call_missing_map [OF assms(3,4,5)] assms(1,2)
  have sb: "senate_branch h s =
           (Inr [], [NetCall (senateMenuUrl (congress s) (session s)), ConsoleWarn])"
    by (simp add: senate_branch_def)
  from house_votes_sortable [OF assms(6)] obtain r where r: "sort_by_date h hv = Inr r"
    by blast
  from sb assms(6) r have g: "fst (gather h s) = Inr r" by (simp add: gather_def)
  from assms(1) have sel: "includeSenate s \<or> includeHouse s" by simp
  from fetchVotes_returned [OF sel g, of st] sort_by_date_mset [OF r] sb show ?thesis by simp
qed

theorem missing_roll_call_is_soft_witness:
  "includeSenate defaults
   \<and> fetchJson senate_empty_object (senateMenuUrl (congress defaults) (session defaults))
       ''Senate Votes'' = Inr (JObj [])
   \<and> roll_call_missing (JObj [])
   \<and> fst (house_branch senate_empty_object defaults) = Inr [roll10_vote]
   \<and> error (fst (fetchVotes senate_empty_object defaults initial)) = None
   \<and> mset (votes (fst (fetchVotes senate_empty_object defaults initial))) = mset [roll10_vote]"
proof -
  have a: "includeSenate defaults" by (simp add: defaults_def)
  have b: "fetchJson senate_empty_object (senateMenuUrl (congress defaults) (session defaults))
       ''Senate Votes'' = Inr (JObj [])" by code_simp
  have c: "JObj [] \<noteq> JNull" and d: "JObj [] \<noteq> JUndefined" by simp_all
  have e: "roll_call_missing (JObj [])" by (simp add: roll_call_missing_def)
  have f: "fst (house_branch senate_empty_object defaults) = Inr [roll10_vote]" by code_simp
  from missing_roll_call_is_soft [OF a b c d e f, of initial] a b e f show ?thesis by blast
qed

theorem single_roll_call_is_fatal:
  "JSON_parse single_roll_call ''SENATE-MENU'' =
     Some (JObj [(''roll_calls'', JObj [(''roll_call'', hr1_record)])])
   \<and> fetchVotes single_roll_call defaults initial =
       (\<lparr>votes = [], loading = False, error = Some TypeErrorMessage\<rparr>,
        [NetCall ''/api/senate/118/2'', ConsoleError TypeError])"
  by code_simp

subsection \<open>The relay\<close>

text \<open>
  C5 (amended): for a GET request to the Senate operation, when the upstream fetch
  succeeds the response has status 200 and carries the parsed upstream body serialised
  again (the body as a JSON string when it is not JSON), except that a request Express
  finds fresh is answered 304 without body; on network failure the response is 500 with
  a short message; on an upstream status outside 200 to 299 that status is forwarded,
  with the short message unless it is 304, which goes out without body. The House
  operation does the same with the upstream text unchanged as \<open>application/xml\<close> and
  its own message.
\<close>

theorem relay_responses:
  "(axios_get nd (senate_upstream_url c ss) = Resolved st text \<longrightarrow>
      senate_route nd hs c ss =
        (if fresh nd hs
              (stringify_json nd (case parse_json nd text of Some d \<Rightarrow> d | None \<Rightarrow> JStr text))
         then \<lparr>status = 304, content_type = None, body = []\<rparr>
         else \<lparr>status = 200, content_type = Some ''application/json'',
               body = stringify_json nd
                        (case parse_json nd text of Some d \<Rightarrow> d | None \<Rightarrow> JStr text)\<rparr>))
   \<and> (axios_get nd (senate_upstream_url c ss) = RejectedWithout \<longrightarrow>
      senate_route nd hs c ss =
        \<lparr>status = 500, content_type = Some ''text/html'',
         body = ''Error fetching data from Senate API''\<rparr>)
   \<and> (axios_get nd (senate_upstream_url c ss) = RejectedWith st \<and> 300 \<le> st \<longrightarrow>
      status (senate_route nd hs c ss) = st
      \<and> senate_route nd hs c ss =
          (if st = 304 then \<lparr>status = 304, content_type = None, body = []\<rparr>
           else \<lparr>status = st, content_type = Some ''text/html'',
                 body = ''Error fetching data from Senate API''\<rparr>))
   \<and> (axios_get nd (house_upstream_url y) = Resolved st text \<longrightarrow>
      house_route nd hs y =
        (if fresh nd hs text then \<lparr>status = 304, content_type = None, body = []\<rparr>
         else \<lparr>status = 200, content_type = Some ''application/xml'', body = text\<rparr>))
   \<and> (axios_get nd (house_upstream_url y) = RejectedWithout \<longrightarrow>
      house_route nd hs y =
        \<lparr>status = 500, content_type = Some ''text/html'',
         body = ''Error fetching data from House API''\<rparr>)
   \<and> (axios_get nd (house_upstream_url y) = RejectedWith st \<and> 300 \<le> st \<longrightarrow>
      status (house_route nd hs y) = st
      \<and> house_route nd hs y =
          (if st = 304 then \<lparr>status = 304, content_type = None, body = []\<rparr>
           else \<lparr>status = st, content_type = Some ''text/html'',
                 body = ''Error fetching data from House API''\<rparr>))"
  by (simp add: senate_route_def house_route_def send_def send_status_def response_data_def)

theorem relay_responses_witness:
  "senate_route created_201 [] ''118'' ''2'' =
     \<lparr>status = 200, content_type = Some ''application/json'', body = ''{}''\<rparr>
   \<and> senate_route created_201 [(''if-none-match'', ''*'')] ''118'' ''2'' =
     \<lparr>status = 304, content_type = None, body = []\<rparr>
   \<and> senate_route (settles (RejectedWith 404) [] []) [] ''118'' ''2'' =
     \<lparr>status = 404, content_type = Some ''text/html'',
      body = ''Error fetching data from Senate API''\<rparr>
   \<and> house_route (settles (RejectedWith 304) [] []) [] ''2024'' =
     \<lparr>status = 304, content_type = None, body = []\<rparr>
   \<and> house_route (settles RejectedWithout [] []) [] ''2024'' =
     \<lparr>status = 500, content_type = Some ''text/html'',
      body = ''Error fetching data from House API''\<rparr>
   \<and> house_route (settles (Resolved 200 ''<rolls/>'') [] []) [] ''2024'' =
     \<lparr>status = 200, content_type = Some ''application/xml'', body = ''<rolls/>''\<rparr>"
proof -
  from relay_responses [of created_201 "''118''" "''2''" 201 "''{ }''" "[]" "''2024''"]
  have a: "senate_route created_201 [] ''118'' ''2'' =
     \<lparr>status = 200, content_type = Some ''application/json'', body = ''{}''\<rparr>"
    by (simp add: created_201_def settles_def)
  from relay_responses [of created_201 "''118''" "''2''" 201 "''{ }''"
      "[(''if-none-match'', ''*'')]" "''2024''"]
  have b: "senate_route created_201 [(''if-none-match'', ''*'')] ''118'' ''2'' =
     \<lparr>status = 304, content_type = None, body = []\<rparr>"
    by (simp add: created_201_def settles_def)
  from relay_responses [of "settles (RejectedWith 404) [] []" "''118''" "''2''" 404 "[]" "[]"
      "''2024''"]
  have c: "senate_route (settles (RejectedWith 404) [] []) [] ''118'' ''2'' =
     \<lparr>status = 404, content_type = Some ''text/html'',
      body = ''Error fetching data from Senate API''\<rparr>"
    by (simp add: settles_def)
  from relay_responses [of "settles (RejectedWith 304) [] []" "''118''" "''2''" 304 "[]" "[]"
      "''2024''"]
  have d: "house_route (settles (RejectedWith 304) [] []) [] ''2024'' =
     \<lparr>status = 304, content_type = None, body = []\<rparr>"
    by (simp add: settles_def)
  from relay_responses [of "settles RejectedWithout [] []" "''118''" "''2''" 0 "[]" "[]"
      "''2024''"]
  have e: "house_route (settles RejectedWithout [] []) [] ''2024'' =
     \<lparr>status = 500, content_type = Some ''text/html'',
      body = ''Error fetching data from House API''\<rparr>"
    by (simp add: settles_def)
  from relay_responses [of "settles (Resolved 200 ''<rolls/>'') [] []" "''118''" "''2''" 200
      "''<rolls/>''" "[]" "''2024''"]
  have f: "house_route (settles (Resolved 200 ''<rolls/>'') [] []) [] ''2024'' =
     \<lparr>status = 200, content_type = Some ''application/xml'', body = ''<rolls/>''\<rparr>"
    by (simp add: settles_def)
  from a b c d e f show ?thesis by blast
qed

theorem relay_reserialises:
  "axios_get created_201 (senate_upstream_url ''118'' ''2'') = Resolved 201 ''{ }''
   \<and> senate_route created_201 [] ''118'' ''2''
     = \<lparr>status = 200, content_type = Some ''application/json'', body = ''{}''\<rparr>"
  by code_simp

end
